theory Spec2Isabelle
  imports Complex_Main "HOL-Library.Multiset" "HOL-Library.Option_ord"
    "HOL-Library.List_Lexorder" "HOL-Library.Char_ord"
begin

section \<open>The persisted store of \<open>image_cache.py\<close>\<close>

text \<open>
  The tables created by \<open>__create_open_db\<close>, one record per row. A table is the list of
  its rows; the schema's PRIMARY KEY and UNIQUE constraints are not built into the type, a
  theorem that needs one states it. Timestamps and coordinates are SQLite \<open>REAL\<close> values
  (IEEE doubles); they are only compared, truncated and rounded here, which is exact on the
  rational number a double denotes, so they are modelled as \<open>rat\<close>. A nullable column is
  an \<open>option\<close>.
\<close>

datatype sqlval = SInt int | SReal rat | SText string

record folder_row =
  folder_id :: int
  folder_name :: string
  folder_last_modified :: rat

record file_row =
  file_id :: int
  file_folder_id :: int
  basename :: string
  extension :: string
  file_last_modified :: rat

record meta_row =
  m_file_id :: int
  m_orientation :: int
  m_exif_datetime :: rat
  m_f_number :: sqlval
  m_exposure_time :: "sqlval option"
  m_iso :: sqlval
  m_focal_length :: "sqlval option"
  m_make :: "sqlval option"
  m_model :: "sqlval option"
  m_lens :: "sqlval option"
  m_rating :: "sqlval option"
  m_latitude :: "rat option"
  m_longitude :: "rat option"
  m_width :: int
  m_height :: int

record location_row =
  location_id :: int
  loc_latitude :: "rat option"
  loc_longitude :: "rat option"
  loc_description :: "string option"

record store =
  t_folder :: "folder_row list"
  t_file :: "file_row list"
  t_meta :: "meta_row list"
  t_location :: "location_row list"

subsection \<open>The view \<open>all_data\<close>\<close>

text \<open>
  One row of the view: \<open>fname\<close>, \<open>file.last_modified\<close>, \<open>meta.*\<close> (all of its columns are
  NULL together when the LEFT JOIN finds no meta row, hence one \<open>option\<close>), and the joined
  location description. The columns \<open>file_id\<close>, \<open>latitude\<close>, \<open>longitude\<close> and \<open>is_portrait\<close>
  of the view are those of \<open>meta\<close>.
\<close>

record view_row =
  fname :: string
  last_modified :: rat
  v_meta :: "meta_row option"
  v_location :: "string option"

definition v_file_id :: "view_row \<Rightarrow> int option" where
  "v_file_id r = map_option m_file_id (v_meta r)"

definition v_latitude :: "view_row \<Rightarrow> rat option" where
  "v_latitude r = Option.bind (v_meta r) m_latitude"

definition v_longitude :: "view_row \<Rightarrow> rat option" where
  "v_longitude r = Option.bind (v_meta r) m_longitude"


text \<open>SQL equality in a join condition: NULL equals nothing.\<close>

definition sql_eq :: "'a option \<Rightarrow> 'a option \<Rightarrow> bool" where
  "sql_eq a b = (a \<noteq> None \<and> a = b)"

definition left_join :: "('a \<Rightarrow> bool) \<Rightarrow> 'a list \<Rightarrow> 'a option list" where
  "left_join on rows = (case filter on rows of [] \<Rightarrow> [None] | ms \<Rightarrow> map Some ms)"

definition location_on :: "meta_row option \<Rightarrow> location_row \<Rightarrow> bool" where
  "location_on mo l =
     (case mo of None \<Rightarrow> False
      | Some m \<Rightarrow> sql_eq (loc_latitude l) (m_latitude m) \<and> sql_eq (loc_longitude l) (m_longitude m))"

definition mk_view_row ::
  "file_row \<Rightarrow> folder_row \<Rightarrow> meta_row option \<Rightarrow> location_row option \<Rightarrow> view_row" where
  "mk_view_row f d mo lo =
     \<lparr>fname = folder_name d @ ''/'' @ basename f @ ''.'' @ extension f,
      last_modified = file_last_modified f,
      v_meta = mo,
      v_location = Option.bind lo loc_description\<rparr>"

definition all_data :: "store \<Rightarrow> view_row list" where
  "all_data s =
     [mk_view_row f d mo lo.
        f \<leftarrow> t_file s,
        d \<leftarrow> filter (\<lambda>d. folder_id d = file_folder_id f) (t_folder s),
        mo \<leftarrow> left_join (\<lambda>m. m_file_id m = file_id f) (t_meta s),
        lo \<leftarrow> left_join (location_on mo) (t_location s)]"

section \<open>The cache object\<close>

text \<open>
  The fields of \<open>ImageCache\<close> that the modelled methods read or write. The reverse geocoder
  \<open>geo_reverse.get_address\<close> is an external capability whose answer may change from call to
  call: \<open>geo_reverse c n lat lon\<close> is its answer when \<open>n\<close> calls have been made before, and
  \<open>geo_calls\<close> counts the calls made so far.
\<close>

record image_cache =
  picture_dir :: string
  db :: store
  geo_reverse :: "nat \<Rightarrow> rat \<Rightarrow> rat \<Rightarrow> string"
  geo_calls :: nat
  portrait_pairs :: bool
  first_run :: bool

section \<open>\<open>query_cache\<close>\<close>








subsection \<open>The pairing algorithm as the specification words it\<close>




section \<open>The environment: file system and libraries\<close>

text \<open>
  What the cache reads from outside within one update cycle, as a snapshot:
  \<open>env_walk root\<close> is \<open>[d[0] for d in os.walk(root)]\<close>, \<open>env_mtime p\<close> is
  \<open>os.stat(p).st_mtime\<close> (which \<open>os.path.getmtime\<close> returns too), \<open>env_listdir\<close> is
  \<open>os.listdir\<close> and \<open>env_exists\<close> is \<open>os.path.exists\<close>. \<open>env_image_meta path\<close> is the object
  \<open>get_image_meta.GetImageMeta(path)\<close> with the answers of its four methods, or the exception
  its constructor raises. \<open>env_strptime v\<close> is
  \<open>time.mktime(time.strptime(v, '%Y:%m:%d %H:%M:%S'))\<close>, \<open>None\<close> when \<open>strptime\<close> raises
  ValueError because \<open>v\<close> does not match the format.
\<close>

datatype error = TypeError | ValueError | IntegrityError | ExtractionError

record exifs =
  get_orientation :: int
  get_size :: "int \<times> int"
  get_exif :: "string \<Rightarrow> sqlval option"
  get_location :: "rat option \<times> rat option"

record environment =
  env_walk :: "string \<Rightarrow> string list"
  env_mtime :: "string \<Rightarrow> rat"
  env_listdir :: "string \<Rightarrow> string list"
  env_exists :: "string \<Rightarrow> bool"
  env_image_meta :: "string \<Rightarrow> error + exifs"
  env_strptime :: "string \<Rightarrow> rat option"

subsection \<open>Python built-ins used by the cache\<close>

text \<open>\<open>int(x)\<close> of a float: truncation towards zero.\<close>

definition py_int :: "rat \<Rightarrow> int" where
  "py_int x = (if 0 \<le> x then \<lfloor>x\<rfloor> else \<lceil>x\<rceil>)"

text \<open>
  \<open>round(x, 4)\<close> of a float: the multiple of \<open>10\<^sup>-\<^sup>4\<close> nearest to the value of \<open>x\<close>, a tie
  going to the even multiple. (Python then returns the double nearest to that decimal.)
\<close>

definition round_half_even :: "rat \<Rightarrow> int" where
  "round_half_even x =
     (let f = \<lfloor>x\<rfloor>; r = x - of_int f in
      if r < 1 / 2 then f else if 1 / 2 < r then f + 1 else if even f then f else f + 1)"

definition py_round4 :: "rat \<Rightarrow> rat" where
  "py_round4 x = of_int (round_half_even (x * 10000)) / 10000"

text \<open>
  File names are byte strings here; \<open>str.lower\<close> is modelled on the ASCII letters, the
  only ones that can make an extension a member of \<open>EXTENSIONS\<close>.
\<close>

definition lower_char :: "char \<Rightarrow> char" where
  "lower_char ch =
     (case map_of (zip ''ABCDEFGHIJKLMNOPQRSTUVWXYZ'' ''abcdefghijklmnopqrstuvwxyz'') ch of
        None \<Rightarrow> ch | Some l \<Rightarrow> l)"

definition lower :: "string \<Rightarrow> string" where
  "lower s = map lower_char s"

definition startswith :: "string \<Rightarrow> string \<Rightarrow> bool" where
  "startswith s pre = (take (length pre) s = pre)"

definition endswith :: "string \<Rightarrow> string \<Rightarrow> bool" where
  "endswith s suf = (drop (length s - length suf) s = suf \<and> length suf \<le> length s)"

text \<open>\<open>sub in s\<close> for strings.\<close>

fun str_contains :: "string \<Rightarrow> string \<Rightarrow> bool" where
  "str_contains sub [] = (sub = [])"
| "str_contains sub (ch # s) = (startswith (ch # s) sub \<or> str_contains sub s)"

definition lstrip :: "char \<Rightarrow> string \<Rightarrow> string" where
  "lstrip ch s = dropWhile (\<lambda>x. x = ch) s"

text \<open>
  \<open>os.path.splitext\<close> (posixpath): the extension starts at the last dot of the last path
  component, unless that component has only dots before it.
\<close>

definition splitext :: "string \<Rightarrow> string \<times> string" where
  "splitext p =
     (let tail_rev = takeWhile (\<lambda>x. x \<noteq> CHR ''/'') (rev p);
          ext_rev = takeWhile (\<lambda>x. x \<noteq> CHR ''.'') tail_rev
      in if length ext_rev = length tail_rev then (p, [])
         else if list_all (\<lambda>x. x = CHR ''.'') (drop (Suc (length ext_rev)) tail_rev) then (p, [])
         else (take (length p - Suc (length ext_rev)) p, drop (length p - Suc (length ext_rev)) p))"

text \<open>\<open>os.path.join(a, p)\<close> (posixpath) for two components.\<close>

definition path_join :: "string \<Rightarrow> string \<Rightarrow> string" where
  "path_join a p =
     (if startswith p ''/'' then p
      else if a = [] \<or> endswith a ''/'' then a @ p
      else a @ ''/'' @ p)"

definition EXTENSIONS :: "string list" where
  "EXTENSIONS = [''.png'', ''.jpg'', ''.jpeg'', ''.heif'', ''.heic'']"

section \<open>The SQL statements\<close>

text \<open>
  SQLite gives a row inserted without a rowid one more than the largest rowid of the table,
  and 1 in an empty table. A new row is appended to its table. \<open>INSERT OR REPLACE\<close> first
  picks the new rowid, then deletes the rows that conflict with the new one on a UNIQUE or
  PRIMARY KEY constraint, without running delete triggers (recursive triggers are off, the
  default), and puts the default of a NOT NULL column in place of a NULL.
  \<open>executemany\<close> runs the statement once per parameter tuple, a \<open>fold\<close> for a statement
  that cannot fail, and otherwise stops at the first tuple that raises.
\<close>

definition next_rowid :: "int list \<Rightarrow> int" where
  "next_rowid ids = (case ids of [] \<Rightarrow> 1 | i # rest \<Rightarrow> fold max rest i + 1)"

fun executemany :: "('a \<Rightarrow> store \<Rightarrow> error + store) \<Rightarrow> 'a list \<Rightarrow> store \<Rightarrow> store \<times> error option" where
  "executemany stmt [] s = (s, None)"
| "executemany stmt (x # xs) s =
     (case stmt x s of Inl e \<Rightarrow> (s, Some e) | Inr s' \<Rightarrow> executemany stmt xs s')"

subsection \<open>Table \<open>folder\<close>\<close>

text \<open>\<open>SELECT * FROM folder WHERE name = ?\<close>, \<open>fetchone()\<close>\<close>

definition select_folder :: "store \<Rightarrow> string \<Rightarrow> folder_row option" where
  "select_folder s name = find (\<lambda>r. folder_name r = name) (t_folder s)"

text \<open>\<open>INSERT OR IGNORE INTO folder(last_modified, name) VALUES(?, ?)\<close>\<close>

definition insert_or_ignore_folder :: "int \<times> string \<Rightarrow> store \<Rightarrow> store" where
  "insert_or_ignore_folder = (\<lambda>(mod_tm, name) s.
     if list_ex (\<lambda>r. folder_name r = name) (t_folder s) then s
     else s\<lparr>t_folder := t_folder s @
              [\<lparr>folder_id = next_rowid (map folder_id (t_folder s)), folder_name = name,
                folder_last_modified = of_int mod_tm\<rparr>]\<rparr>)"

text \<open>\<open>UPDATE folder SET last_modified = ? WHERE name = ?\<close>\<close>

definition update_folder :: "int \<times> string \<Rightarrow> store \<Rightarrow> store" where
  "update_folder = (\<lambda>(mod_tm, name) s.
     s\<lparr>t_folder := map (\<lambda>r. if folder_name r = name
                              then r\<lparr>folder_last_modified := of_int mod_tm\<rparr> else r) (t_folder s)\<rparr>)"

subsection \<open>Table \<open>file\<close>\<close>

text \<open>\<open>SELECT fname, last_modified FROM all_data WHERE fname = ?\<close>, \<open>fetchone()\<close>\<close>

definition select_fname :: "store \<Rightarrow> string \<Rightarrow> view_row option" where
  "select_fname s full_file = find (\<lambda>r. fname r = full_file) (all_data s)"

text \<open>
  \<open>INSERT OR REPLACE INTO file(folder_id, basename, extension, last_modified)
  VALUES((SELECT folder_id from folder where name = ?), ?, ?, ?)\<close>.
  The column \<open>folder_id\<close> is NOT NULL and has no default, so a folder name that is not in
  the table raises IntegrityError.
\<close>

definition insert_or_replace_file :: "string \<times> string \<times> string \<times> rat \<Rightarrow> store \<Rightarrow> error + store" where
  "insert_or_replace_file = (\<lambda>(dir, base, ext, mod_tm) s.
     case select_folder s dir of
       None \<Rightarrow> Inl IntegrityError
     | Some d \<Rightarrow>
         Inr (s\<lparr>t_file :=
                filter (\<lambda>f. \<not> (file_folder_id f = folder_id d \<and> basename f = base \<and> extension f = ext))
                  (t_file s)
                @ [\<lparr>file_id = next_rowid (map file_id (t_file s)), file_folder_id = folder_id d,
                    basename = base, extension = ext, file_last_modified = mod_tm\<rparr>]\<rparr>))"

subsection \<open>Table \<open>meta\<close>\<close>

text \<open>The dictionary \<open>e\<close> that \<open>__get_exif_info\<close> builds: one value per column of \<open>meta\<close>.\<close>

record exif_info =
  e_orientation :: int
  e_width :: int
  e_height :: int
  e_f_number :: "sqlval option"
  e_make :: "sqlval option"
  e_model :: "sqlval option"
  e_exposure_time :: "sqlval option"
  e_iso :: "sqlval option"
  e_focal_length :: "sqlval option"
  e_rating :: "sqlval option"
  e_lens :: "sqlval option"
  e_exif_datetime :: rat
  e_latitude :: "rat option"
  e_longitude :: "rat option"

definition not_null_default :: "sqlval option \<Rightarrow> sqlval" where
  "not_null_default v = (case v of None \<Rightarrow> SReal 0 | Some x \<Rightarrow> x)"

definition meta_of_dict :: "int \<Rightarrow> exif_info \<Rightarrow> meta_row" where
  "meta_of_dict i e =
     \<lparr>m_file_id = i, m_orientation = e_orientation e, m_exif_datetime = e_exif_datetime e,
      m_f_number = not_null_default (e_f_number e), m_exposure_time = e_exposure_time e,
      m_iso = not_null_default (e_iso e), m_focal_length = e_focal_length e,
      m_make = e_make e, m_model = e_model e, m_lens = e_lens e, m_rating = e_rating e,
      m_latitude = e_latitude e, m_longitude = e_longitude e,
      m_width = e_width e, m_height = e_height e\<rparr>"

text \<open>
  The statement of \<open>__get_meta_sql_from_dict\<close>:
  \<open>INSERT OR REPLACE INTO meta(file_id, ...) VALUES((SELECT file_id from all_data where fname = ?), ...)\<close>.
  The subquery yields the view's \<open>file_id\<close> of the first matching row, NULL without one;
  a NULL \<open>file_id\<close>, the INTEGER PRIMARY KEY, becomes the next rowid.
\<close>

definition insert_or_replace_meta :: "string \<times> exif_info \<Rightarrow> store \<Rightarrow> store" where
  "insert_or_replace_meta = (\<lambda>(file, e) s.
     case Option.bind (select_fname s file) v_file_id of
       None \<Rightarrow>
         s\<lparr>t_meta := t_meta s @ [meta_of_dict (next_rowid (map m_file_id (t_meta s))) e]\<rparr>
     | Some i \<Rightarrow>
         s\<lparr>t_meta := filter (\<lambda>m. m_file_id m \<noteq> i) (t_meta s) @ [meta_of_dict i e]\<rparr>)"

subsection \<open>Table \<open>location\<close>\<close>

text \<open>\<open>INSERT OR REPLACE INTO location (latitude, longitude, description) VALUES (?, ?, ?)\<close>\<close>

definition insert_or_replace_location :: "rat \<Rightarrow> rat \<Rightarrow> string \<Rightarrow> store \<Rightarrow> store" where
  "insert_or_replace_location lat lon descr s =
     s\<lparr>t_location :=
         filter (\<lambda>l. \<not> (loc_latitude l = Some lat \<and> loc_longitude l = Some lon)) (t_location s)
         @ [\<lparr>location_id = next_rowid (map location_id (t_location s)),
             loc_latitude = Some lat, loc_longitude = Some lon, loc_description = Some descr\<rparr>]\<rparr>"

subsection \<open>Deletes and the two triggers\<close>

text \<open>
  The body of \<open>Clean_Meta_Trigger\<close> for one deleted file row:
  \<open>DELETE FROM meta WHERE file_id = OLD.file_id\<close>.
\<close>

definition clean_meta_trigger :: "file_row \<Rightarrow> store \<Rightarrow> store" where
  "clean_meta_trigger old s = s\<lparr>t_meta := filter (\<lambda>m. m_file_id m \<noteq> file_id old) (t_meta s)\<rparr>"

text \<open>Deleting the file rows that satisfy a condition; the trigger runs for each deleted row.\<close>

definition delete_from_file :: "(file_row \<Rightarrow> bool) \<Rightarrow> store \<Rightarrow> store" where
  "delete_from_file cond s =
     fold clean_meta_trigger (filter cond (t_file s))
       (s\<lparr>t_file := filter (\<lambda>f. \<not> cond f) (t_file s)\<rparr>)"

text \<open>
  The body of \<open>Clean_File_Trigger\<close> for one deleted folder row:
  \<open>DELETE FROM file WHERE folder_id = OLD.folder_id\<close>, which in turn fires
  \<open>Clean_Meta_Trigger\<close>.
\<close>

definition clean_file_trigger :: "folder_row \<Rightarrow> store \<Rightarrow> store" where
  "clean_file_trigger old s = delete_from_file (\<lambda>f. file_folder_id f = folder_id old) s"

text \<open>\<open>DELETE FROM folder WHERE folder_id = ?\<close>\<close>

definition delete_folder :: "int \<Rightarrow> store \<Rightarrow> store" where
  "delete_folder i s =
     fold clean_file_trigger (filter (\<lambda>d. folder_id d = i) (t_folder s))
       (s\<lparr>t_folder := filter (\<lambda>d. folder_id d \<noteq> i) (t_folder s)\<rparr>)"

text \<open>\<open>DELETE FROM file WHERE file_id = ?\<close>; the parameter is NULL when the view's
  \<open>file_id\<close> is, and then no row matches.\<close>

definition delete_file :: "int option \<Rightarrow> store \<Rightarrow> store" where
  "delete_file io s =
     (case io of None \<Rightarrow> s | Some i \<Rightarrow> delete_from_file (\<lambda>f. file_id f = i) s)"

section \<open>The update cycle\<close>

subsection \<open>\<open>__update_modified_folders\<close>\<close>

text \<open>
  The loop over the walked directories, with \<open>__first_run\<close>, \<open>out_of_date_folders\<close> and
  \<open>insert_data\<close> as accumulators; the \<open>break\<close> ends the recursion.
\<close>

definition folder_out_of_date :: "environment \<Rightarrow> store \<Rightarrow> string \<Rightarrow> bool" where
  "folder_out_of_date env s dir =
     (case select_folder s dir of
        None \<Rightarrow> True
      | Some found \<Rightarrow> folder_last_modified found < of_int (py_int (env_mtime env dir)))"

fun scan_folders ::
  "environment \<Rightarrow> store \<Rightarrow> string list \<Rightarrow> bool \<Rightarrow> string list \<Rightarrow> (int \<times> string) list
   \<Rightarrow> bool \<times> string list \<times> (int \<times> string) list" where
  "scan_folders env s [] fr out_of_date_folders insert_data = (fr, out_of_date_folders, insert_data)"
| "scan_folders env s (dir # dirs) fr out_of_date_folders insert_data =
     (let mod_tm = py_int (env_mtime env dir) in
      if folder_out_of_date env s dir then
        (if fr then (False, out_of_date_folders @ [dir], insert_data @ [(mod_tm, dir)])
         else scan_folders env s dirs fr (out_of_date_folders @ [dir]) (insert_data @ [(mod_tm, dir)]))
      else scan_folders env s dirs fr out_of_date_folders insert_data)"

definition update_modified_folders :: "environment \<Rightarrow> image_cache \<Rightarrow> image_cache \<times> string list" where
  "update_modified_folders env c =
     (case scan_folders env (db c) (env_walk env (picture_dir c)) (first_run c) [] [] of
        (fr, out_of_date_folders, insert_data) \<Rightarrow>
          (c\<lparr>db := (if insert_data \<noteq> []
                   then fold update_folder insert_data (fold insert_or_ignore_folder insert_data (db c))
                   else db c),
             first_run := fr\<rparr>,
           out_of_date_folders))"

subsection \<open>\<open>__update_modified_files\<close>\<close>

text \<open>
  The body of the inner loop for one directory entry: nothing, or the full path appended to
  \<open>out_of_date_files\<close> with the tuple appended to \<open>insert_data\<close>.
\<close>

definition file_entry ::
  "environment \<Rightarrow> store \<Rightarrow> string \<Rightarrow> string \<Rightarrow> (string \<times> string \<times> string \<times> string \<times> rat) list" where
  "file_entry env s dir file =
     (case splitext file of (base, ext) \<Rightarrow>
        if lower ext \<in> set EXTENSIONS \<and> \<not> str_contains ''.AppleDouble'' dir
           \<and> \<not> startswith file ''.''
        then
          (let full_file = path_join dir file;
               mod_tm = env_mtime env full_file
           in case select_fname s full_file of
                None \<Rightarrow> [(full_file, dir, base, lstrip CHR ''.'' ext, mod_tm)]
              | Some found \<Rightarrow>
                  if last_modified found < mod_tm
                  then [(full_file, dir, base, lstrip CHR ''.'' ext, mod_tm)] else [])
        else [])"

text \<open>The two nested loops: every directory of \<open>modified_folders\<close>, every entry of its listing.\<close>

definition file_entries ::
  "environment \<Rightarrow> store \<Rightarrow> string list \<Rightarrow> (string \<times> string \<times> string \<times> string \<times> rat) list" where
  "file_entries env s modified_folders =
     concat (map (\<lambda>dir. concat (map (file_entry env s dir) (env_listdir env dir))) modified_folders)"

definition update_modified_files ::
  "environment \<Rightarrow> image_cache \<Rightarrow> string list \<Rightarrow> image_cache \<times> (error + string list)" where
  "update_modified_files env c modified_folders =
     (let entries = file_entries env (db c) modified_folders;
          out_of_date_files = map fst entries;
          insert_data = map snd entries
      in if insert_data \<noteq> [] then
           (case executemany insert_or_replace_file insert_data (db c) of
              (s, Some e) \<Rightarrow> (c\<lparr>db := s\<rparr>, Inl e)
            | (s, None) \<Rightarrow> (c\<lparr>db := s\<rparr>, Inr out_of_date_files))
         else (c, Inr out_of_date_files))"

subsection \<open>\<open>__get_exif_info\<close> and \<open>__update_meta_data\<close>\<close>

definition get_exif_info :: "environment \<Rightarrow> string \<Rightarrow> error + exif_info" where
  "get_exif_info env file_path_name =
     (case env_image_meta env file_path_name of
        Inl err \<Rightarrow> Inl err
      | Inr exifs \<Rightarrow>
          (let orientation = get_orientation exifs;
               (width, height) = (if orientation \<in> {5, 6, 7, 8}
                                  then (snd (get_size exifs), fst (get_size exifs))
                                  else get_size exifs);
               (lat, lon) = get_location exifs;
               e = (\<lambda>dt. \<lparr>e_orientation = orientation, e_width = width, e_height = height,
                      e_f_number = get_exif exifs ''EXIF FNumber'',
                      e_make = get_exif exifs ''EXIF Make'',
                      e_model = get_exif exifs ''Image Model'',
                      e_exposure_time = get_exif exifs ''EXIF ExposureTime'',
                      e_iso = get_exif exifs ''EXIF ISOSpeedRatings'',
                      e_focal_length = get_exif exifs ''EXIF FocalLength'',
                      e_rating = get_exif exifs ''EXIF Rating'',
                      e_lens = get_exif exifs ''EXIF LensModel'',
                      e_exif_datetime = dt,
                      e_latitude = map_option py_round4 lat,
                      e_longitude = map_option py_round4 lon\<rparr>)
           in case get_exif exifs ''EXIF DateTimeOriginal'' of
                None \<Rightarrow> Inr (e (env_mtime env file_path_name))
              | Some (SText val) \<Rightarrow>
                  (case env_strptime env val of
                     None \<Rightarrow> Inl ValueError
                   | Some dt \<Rightarrow> Inr (e dt))
              | Some _ \<Rightarrow> Inl TypeError))"

text \<open>
  The loop of \<open>__update_meta_data\<close>: an exception of \<open>__get_exif_info\<close> leaves the loop and
  the method at once, before \<open>executemany\<close> is reached.
\<close>

fun collect_meta :: "environment \<Rightarrow> string list \<Rightarrow> error + (string \<times> exif_info) list" where
  "collect_meta env [] = Inr []"
| "collect_meta env (file # files) =
     (case get_exif_info env file of
        Inl err \<Rightarrow> Inl err
      | Inr e \<Rightarrow>
          (case collect_meta env files of
             Inl err \<Rightarrow> Inl err
           | Inr insert_data \<Rightarrow> Inr ((file, e) # insert_data)))"

definition update_meta_data :: "environment \<Rightarrow> image_cache \<Rightarrow> string list \<Rightarrow> error + image_cache" where
  "update_meta_data env c modified_files =
     (case collect_meta env modified_files of
        Inl err \<Rightarrow> Inl err
      | Inr insert_data \<Rightarrow>
          if insert_data \<noteq> []
          then Inr (c\<lparr>db := fold insert_or_replace_meta insert_data (db c)\<rparr>)
          else Inr c)"

subsection \<open>\<open>__purge_missing_files_and_folders\<close>\<close>

definition purge_missing_files_and_folders :: "environment \<Rightarrow> image_cache \<Rightarrow> image_cache" where
  "purge_missing_files_and_folders env c =
     (let folder_id_list = map folder_id (filter (\<lambda>row. \<not> env_exists env (folder_name row)) (t_folder (db c)));
          s1 = (if folder_id_list \<noteq> [] then fold delete_folder folder_id_list (db c) else db c);
          file_id_list = map v_file_id (filter (\<lambda>row. \<not> env_exists env (fname row)) (all_data s1));
          s2 = (if file_id_list \<noteq> [] then fold delete_file file_id_list s1 else s1)
      in c\<lparr>db := s2\<rparr>)"

subsection \<open>\<open>update_cache\<close>\<close>

text \<open>
  One cycle. The method returns nothing; the model returns the cache as the cycle leaves it
  together with the exception that ended it, or the two lists \<open>modified_folders\<close> and
  \<open>modified_files\<close> it computed.
\<close>

definition update_cache ::
  "environment \<Rightarrow> image_cache \<Rightarrow> image_cache \<times> (error + string list \<times> string list)" where
  "update_cache env c =
     (case update_modified_folders env c of
        (c1, modified_folders) \<Rightarrow>
          (case update_modified_files env c1 modified_folders of
             (c2, Inl err) \<Rightarrow> (c2, Inl err)
           | (c2, Inr modified_files) \<Rightarrow>
               (case update_meta_data env c2 modified_files of
                  Inl err \<Rightarrow> (c2, Inl err)
                | Inr c3 \<Rightarrow>
                    (purge_missing_files_and_folders env c3, Inr (modified_folders, modified_files)))))"

section \<open>\<open>get_file_info\<close>\<close>

text \<open>\<open>__get_geo_location\<close>: one call of the geocoder; a non-empty answer is stored.\<close>

definition get_geo_location :: "image_cache \<Rightarrow> rat \<Rightarrow> rat \<Rightarrow> image_cache \<times> bool" where
  "get_geo_location c lat lon =
     (let location = geo_reverse c (geo_calls c) lat lon;
          c1 = c\<lparr>geo_calls := Suc (geo_calls c)\<rparr>
      in if length location = 0 then (c1, False)
         else (c1\<lparr>db := insert_or_replace_location lat lon location (db c)\<rparr>, True))"

text \<open>\<open>SELECT * FROM all_data where file_id = ...\<close>, \<open>fetchone()\<close>\<close>

definition select_file_id :: "store \<Rightarrow> int \<Rightarrow> view_row option" where
  "select_file_id s i = find (\<lambda>r. v_file_id r = Some i) (all_data s)"

text \<open>
  \<open>fetchone()\<close> returns \<open>None\<close> when no row matches, and \<open>row['latitude']\<close> then raises
  TypeError. The method returns what the last \<open>fetchone()\<close> returned.
\<close>

definition get_file_info :: "image_cache \<Rightarrow> int \<Rightarrow> image_cache \<times> (error + view_row option)" where
  "get_file_info c i =
     (case select_file_id (db c) i of
        None \<Rightarrow> (c, Inl TypeError)
      | Some row \<Rightarrow>
          (case (v_latitude row, v_longitude row, v_location row) of
             (Some lat, Some lon, None) \<Rightarrow>
               (case get_geo_location c lat lon of
                  (c1, True) \<Rightarrow> (c1, Inr (select_file_id (db c1) i))
                | (c1, False) \<Rightarrow> (c1, Inr (Some row)))
           | _ \<Rightarrow> (c, Inr (Some row))))"

section \<open>Auxiliary definitions for the proofs\<close>


text \<open>The modification time the store holds for a folder name, if it holds one.\<close>

definition stored_mtime :: "store \<Rightarrow> string \<Rightarrow> rat option" where
  "stored_mtime s name = map_option folder_last_modified (select_folder s name)"

text \<open>The columns of the UNIQUE constraint of the file table.\<close>

definition file_key :: "file_row \<Rightarrow> int \<times> string \<times> string" where
  "file_key f = (file_folder_id f, basename f, extension f)"

text \<open>The key of the row that one parameter tuple of the file statement writes.\<close>

definition tuple_key :: "store \<Rightarrow> string \<times> string \<times> string \<times> rat \<Rightarrow> (int \<times> string \<times> string) option" where
  "tuple_key s = (\<lambda>(dir, base, ext, tm). map_option (\<lambda>d. (folder_id d, base, ext)) (select_folder s dir))"

text \<open>The view before its last join: file, folder and meta row of each group of view rows.\<close>

definition view_groups :: "store \<Rightarrow> (file_row \<times> folder_row \<times> meta_row option) list" where
  "view_groups s =
     [(f, d, mo).
        f \<leftarrow> t_file s,
        d \<leftarrow> filter (\<lambda>d. folder_id d = file_folder_id f) (t_folder s),
        mo \<leftarrow> left_join (\<lambda>m. m_file_id m = file_id f) (t_meta s)]"

text \<open>The rows of the view that one such group contributes, one per matching location row.\<close>

definition group_rows :: "store \<Rightarrow> file_row \<times> folder_row \<times> meta_row option \<Rightarrow> view_row list" where
  "group_rows s = (\<lambda>(f, d, mo). map (mk_view_row f d mo) (left_join (location_on mo) (t_location s)))"

text \<open>The ids of the folder rows whose folder is not on disk.\<close>

definition missing_folder_ids :: "environment \<Rightarrow> store \<Rightarrow> int set" where
  "missing_folder_ids env s = folder_id ` {d \<in> set (t_folder s). \<not> env_exists env (folder_name d)}"

text \<open>The two halves of the purge pass: the folder rows, then the rows of the view.\<close>

definition purge_folders :: "environment \<Rightarrow> store \<Rightarrow> store" where
  "purge_folders env s =
     fold delete_folder (map folder_id (filter (\<lambda>row. \<not> env_exists env (folder_name row)) (t_folder s))) s"

definition purge_files :: "environment \<Rightarrow> store \<Rightarrow> store" where
  "purge_files env s =
     fold delete_file (map v_file_id (filter (\<lambda>row. \<not> env_exists env (fname row)) (all_data s))) s"


subsection \<open>Concrete stores, caches and environments\<close>

text \<open>The inputs at which the theorems below are instantiated and the code is evaluated.\<close>

definition demo_meta :: "int \<Rightarrow> rat \<Rightarrow> int \<Rightarrow> int \<Rightarrow> meta_row" where
  "demo_meta i t w h =
     \<lparr>m_file_id = i, m_orientation = 1, m_exif_datetime = t, m_f_number = SReal 0,
      m_exposure_time = None, m_iso = SReal 0, m_focal_length = None, m_make = None,
      m_model = None, m_lens = None, m_rating = None, m_latitude = None, m_longitude = None,
      m_width = w, m_height = h\<rparr>"

definition demo_file :: "int \<Rightarrow> string \<Rightarrow> file_row" where
  "demo_file i b =
     \<lparr>file_id = i, file_folder_id = 1, basename = b, extension = ''jpg'',
      file_last_modified = 5\<rparr>"

definition pairing_store :: store where
  "pairing_store =
     \<lparr>t_folder = [\<lparr>folder_id = 1, folder_name = ''/p'', folder_last_modified = 5\<rparr>],
      t_file = [demo_file 1 ''a'', demo_file 2 ''b'', demo_file 3 ''c'', demo_file 4 ''d''],
      t_meta = [demo_meta 1 10 4 3, demo_meta 2 20 3 4, demo_meta 3 30 3 4, demo_meta 4 40 4 3],
      t_location = []\<rparr>"

definition pairing_cache :: image_cache where
  "pairing_cache =
     \<lparr>picture_dir = ''/p'', db = pairing_store, geo_reverse = (\<lambda>n lat lon. []),
      geo_calls = 0, portrait_pairs = True, first_run = False\<rparr>"









definition gps_exifs :: exifs where
  "gps_exifs =
     \<lparr>get_orientation = 1, get_size = (4000, 3000), get_exif = (\<lambda>tag. None),
      get_location = (Some (5150123456 / 100000000), Some (- (12783210 / 100000000)))\<rparr>"

definition gps_env :: environment where
  "gps_env =
     \<lparr>env_walk = (\<lambda>root. [''/p'']), env_mtime = (\<lambda>p. 100),
      env_listdir = (\<lambda>d. [''a.jpg'']), env_exists = (\<lambda>p. True),
      env_image_meta = (\<lambda>p. Inr gps_exifs), env_strptime = (\<lambda>v. None)\<rparr>"

definition empty_store :: store where
  "empty_store = \<lparr>t_folder = [], t_file = [], t_meta = [], t_location = []\<rparr>"

definition dated_exifs :: "string \<Rightarrow> exifs" where
  "dated_exifs v =
     \<lparr>get_orientation = 1, get_size = (4000, 3000),
      get_exif = (\<lambda>tag. if tag = ''EXIF DateTimeOriginal'' then Some (SText v) else None),
      get_location = (None, None)\<rparr>"

definition corrupt_env :: environment where
  "corrupt_env =
     \<lparr>env_walk = (\<lambda>root. [''/p'']), env_mtime = (\<lambda>p. 100),
      env_listdir = (\<lambda>d. [''a.jpg'', ''b.jpg'']), env_exists = (\<lambda>p. True),
      env_image_meta = (\<lambda>p. Inr (if p = ''/p/b.jpg'' then dated_exifs ''not a date''
                                   else dated_exifs ''2020:01:02 03:04:05'')),
      env_strptime = (\<lambda>v. if v = ''2020:01:02 03:04:05'' then Some 1577934245 else None)\<rparr>"

definition fresh_cache :: image_cache where
  "fresh_cache =
     \<lparr>picture_dir = ''/p'', db = empty_store, geo_reverse = (\<lambda>n lat lon. []),
      geo_calls = 0, portrait_pairs = False, first_run = True\<rparr>"

definition trunc_store :: store where
  "trunc_store =
     \<lparr>t_folder = [\<lparr>folder_id = 1, folder_name = ''/p'', folder_last_modified = 100\<rparr>],
      t_file = [\<lparr>file_id = 1, file_folder_id = 1, basename = ''a'', extension = ''jpg'',
                 file_last_modified = 1002 / 10\<rparr>],
      t_meta = [], t_location = []\<rparr>"

definition trunc_env :: environment where
  "trunc_env =
     \<lparr>env_walk = (\<lambda>root. [''/p'']), env_mtime = (\<lambda>p. 1007 / 10),
      env_listdir = (\<lambda>d. [''a.jpg'']), env_exists = (\<lambda>p. True),
      env_image_meta = (\<lambda>p. Inl ExtractionError), env_strptime = (\<lambda>v. None)\<rparr>"

definition trunc_cache :: image_cache where
  "trunc_cache =
     \<lparr>picture_dir = ''/p'', db = trunc_store, geo_reverse = (\<lambda>n lat lon. []),
      geo_calls = 0, portrait_pairs = False, first_run = False\<rparr>"

definition warm_store :: store where
  "warm_store =
     \<lparr>t_folder = [\<lparr>folder_id = 1, folder_name = ''/p'', folder_last_modified = 100\<rparr>,
                 \<lparr>folder_id = 2, folder_name = ''/p/a'', folder_last_modified = 100\<rparr>],
      t_file = [], t_meta = [], t_location = []\<rparr>"

definition warm_cache :: image_cache where
  "warm_cache =
     \<lparr>picture_dir = ''/p'', db = warm_store, geo_reverse = (\<lambda>n lat lon. []),
      geo_calls = 0, portrait_pairs = False, first_run = True\<rparr>"

definition two_folder_env :: "rat \<Rightarrow> environment" where
  "two_folder_env t =
     \<lparr>env_walk = (\<lambda>root. [''/p'', ''/p/a'']), env_mtime = (\<lambda>p. t),
      env_listdir = (\<lambda>d. []), env_exists = (\<lambda>p. True),
      env_image_meta = (\<lambda>p. Inl ExtractionError), env_strptime = (\<lambda>v. None)\<rparr>"

definition gps_meta :: meta_row where
  "gps_meta = (demo_meta 1 10 4 3)\<lparr>m_latitude := Some (515012 / 10000),
                                   m_longitude := Some (- (1278 / 10000))\<rparr>"

definition geo_store :: store where
  "geo_store =
     \<lparr>t_folder = [\<lparr>folder_id = 1, folder_name = ''/p'', folder_last_modified = 5\<rparr>],
      t_file = [demo_file 1 ''a'', demo_file 2 ''b''],
      t_meta = [gps_meta, gps_meta\<lparr>m_file_id := 2\<rparr>], t_location = []\<rparr>"

definition geo_cache :: "(nat \<Rightarrow> rat \<Rightarrow> rat \<Rightarrow> string) \<Rightarrow> image_cache" where
  "geo_cache g =
     \<lparr>picture_dir = ''/p'', db = geo_store, geo_reverse = g,
      geo_calls = 0, portrait_pairs = False, first_run = False\<rparr>"





section \<open>Evaluation of floor and ceiling on rational numerals\<close>

lemma floor_rat_numeral [simp]:
  "\<lfloor>(numeral a / numeral b :: rat)\<rfloor> = numeral a div numeral b"
  using floor_divide_of_int_eq[of "numeral a" "numeral b", where ?'a = rat] by simp

lemma floor_rat_neg_numeral [simp]:
  "\<lfloor>(- (numeral a / numeral b) :: rat)\<rfloor> = - numeral a div numeral b"
  using floor_divide_of_int_eq[of "- numeral a" "numeral b", where ?'a = rat] by simp

lemma ceiling_rat_numeral [simp]:
  "\<lceil>(numeral a / numeral b :: rat)\<rceil> = - (- numeral a div numeral b)"
  unfolding ceiling_def using floor_rat_neg_numeral[of a b] by simp

lemma ceiling_rat_neg_numeral [simp]:
  "\<lceil>(- (numeral a / numeral b) :: rat)\<rceil> = - (numeral a div numeral b)"
  unfolding ceiling_def by simp

section \<open>Which tables a statement leaves alone\<close>

lemma insert_or_ignore_folder_frame [simp]:
  "t_file (insert_or_ignore_folder x s) = t_file s"
  "t_meta (insert_or_ignore_folder x s) = t_meta s"
  "t_location (insert_or_ignore_folder x s) = t_location s"
  by (cases x; simp add: insert_or_ignore_folder_def)+

lemma update_folder_frame [simp]:
  "t_file (update_folder x s) = t_file s"
  "t_meta (update_folder x s) = t_meta s"
  "t_location (update_folder x s) = t_location s"
  by (cases x; simp add: update_folder_def)+

lemma fold_insert_or_ignore_folder_frame [simp]:
  "t_file (fold insert_or_ignore_folder xs s) = t_file s"
  "t_meta (fold insert_or_ignore_folder xs s) = t_meta s"
  "t_location (fold insert_or_ignore_folder xs s) = t_location s"
  by (induction xs arbitrary: s; simp)+

lemma fold_update_folder_frame [simp]:
  "t_file (fold update_folder xs s) = t_file s"
  "t_meta (fold update_folder xs s) = t_meta s"
  "t_location (fold update_folder xs s) = t_location s"
  by (induction xs arbitrary: s; simp)+

lemma update_modified_folders_frame:
  "t_file (db (fst (update_modified_folders env c))) = t_file (db c)"
  "t_meta (db (fst (update_modified_folders env c))) = t_meta (db c)"
  "t_location (db (fst (update_modified_folders env c))) = t_location (db c)"
  by (simp_all add: update_modified_folders_def split: prod.splits)

lemma insert_or_replace_file_frame:
  assumes "insert_or_replace_file x s = Inr s'"
  shows "t_folder s' = t_folder s" "t_meta s' = t_meta s" "t_location s' = t_location s"
  using assms
  by (cases x; auto simp: insert_or_replace_file_def split: option.splits)+

lemma executemany_file_frame:
  "t_folder (fst (executemany insert_or_replace_file xs s)) = t_folder s
   \<and> t_meta (fst (executemany insert_or_replace_file xs s)) = t_meta s
   \<and> t_location (fst (executemany insert_or_replace_file xs s)) = t_location s"
proof (induction xs arbitrary: s)
  case Nil
  then show ?case by simp
next
  case (Cons x xs)
  show ?case
  proof (cases "insert_or_replace_file x s")
    case (Inl e)
    then show ?thesis by simp
  next
    case (Inr s')
    then show ?thesis
      using Cons.IH[of s'] insert_or_replace_file_frame[OF Inr] by simp
  qed
qed

lemma update_modified_files_frame:
  "t_folder (db (fst (update_modified_files env c dirs))) = t_folder (db c)"
  "t_meta (db (fst (update_modified_files env c dirs))) = t_meta (db c)"
  "t_location (db (fst (update_modified_files env c dirs))) = t_location (db c)"
  using executemany_file_frame[of "map snd (file_entries env (db c) dirs)" "db c"]
  by (auto simp: update_modified_files_def Let_def split: prod.splits option.splits)

lemma update_modified_files_cache:
  "update_modified_files env c dirs = (c', r) \<Longrightarrow>
     first_run c' = first_run c \<and> picture_dir c' = picture_dir c \<and> geo_calls c' = geo_calls c"
  by (auto simp: update_modified_files_def Let_def split: prod.splits option.splits if_splits)

lemma insert_or_replace_meta_frame [simp]:
  "t_folder (insert_or_replace_meta x s) = t_folder s"
  "t_file (insert_or_replace_meta x s) = t_file s"
  "t_location (insert_or_replace_meta x s) = t_location s"
  by (cases x; simp add: insert_or_replace_meta_def split: option.splits)+

lemma fold_insert_or_replace_meta_frame [simp]:
  "t_folder (fold insert_or_replace_meta xs s) = t_folder s"
  "t_file (fold insert_or_replace_meta xs s) = t_file s"
  "t_location (fold insert_or_replace_meta xs s) = t_location s"
  by (induction xs arbitrary: s; simp)+

lemma update_meta_data_frame:
  assumes "update_meta_data env c files = Inr c'"
  shows "t_folder (db c') = t_folder (db c)" "t_file (db c') = t_file (db c)"
    "t_location (db c') = t_location (db c)" "first_run c' = first_run c"
    "picture_dir c' = picture_dir c"
  using assms
  by (auto simp: update_meta_data_def split: sum.splits if_splits)

section \<open>The loop of the Metadata Updater\<close>

lemma collect_meta_fails:
  "f \<in> set files \<Longrightarrow> get_exif_info env f = Inl err \<Longrightarrow> \<exists>err'. collect_meta env files = Inl err'"
  by (induction files) (auto split: sum.splits)

lemma collect_meta_succeeds:
  "\<forall>f\<in>set files. \<exists>e. get_exif_info env f = Inr e \<Longrightarrow>
   \<exists>data. collect_meta env files = Inr data \<and> map fst data = files
          \<and> (\<forall>x\<in>set data. get_exif_info env (fst x) = Inr (snd x))"
proof (induction files)
  case Nil
  then show ?case by simp
next
  case (Cons f files)
  then obtain e where e: "get_exif_info env f = Inr e" by auto
  from Cons obtain data where "collect_meta env files = Inr data" "map fst data = files"
    "\<forall>x\<in>set data. get_exif_info env (fst x) = Inr (snd x)" by auto
  with e show ?case by simp
qed
section \<open>The directory scan\<close>

lemma scan_folders_later_runs:
  "scan_folders env s dirs False ood ins =
     (False, ood @ filter (folder_out_of_date env s) dirs,
      ins @ map (\<lambda>d. (py_int (env_mtime env d), d)) (filter (folder_out_of_date env s) dirs))"
  by (induction dirs arbitrary: ood ins) (simp_all add: Let_def)

lemma scan_folders_first_run:
  "scan_folders env s dirs True ood ins =
     (case find (folder_out_of_date env s) dirs of
        None \<Rightarrow> (True, ood, ins)
      | Some d \<Rightarrow> (False, ood @ [d], ins @ [(py_int (env_mtime env d), d)]))"
  by (induction dirs arbitrary: ood ins) (simp_all add: Let_def)

lemma scan_folders_shape:
  "\<exists>ds. scan_folders env s dirs fr [] [] =
          (fr \<and> ds = [], ds, map (\<lambda>d. (py_int (env_mtime env d), d)) ds)
        \<and> set ds \<subseteq> {d \<in> set dirs. folder_out_of_date env s d}
        \<and> (fr \<longrightarrow> length ds \<le> 1)
        \<and> (\<not> fr \<longrightarrow> ds = filter (folder_out_of_date env s) dirs)
        \<and> (fr \<longrightarrow> ds = (case find (folder_out_of_date env s) dirs of None \<Rightarrow> [] | Some d \<Rightarrow> [d]))"
proof (cases fr)
  case False
  then show ?thesis by (simp add: scan_folders_later_runs)
next
  case True
  show ?thesis
  proof (cases "find (folder_out_of_date env s) dirs")
    case None
    then show ?thesis using True by (simp add: scan_folders_first_run)
  next
    case (Some d)
    then have "d \<in> set dirs" "folder_out_of_date env s d"
      by (auto simp: find_Some_iff)
    then show ?thesis using True Some by (simp add: scan_folders_first_run)
  qed
qed

section \<open>The stored modification time of a folder\<close>

lemma folder_out_of_date_stored:
  "folder_out_of_date env s d =
     (case stored_mtime s d of None \<Rightarrow> True
      | Some lm \<Rightarrow> lm < of_int (py_int (env_mtime env d)))"
  by (simp add: folder_out_of_date_def stored_mtime_def split: option.splits)

lemma find_append_single:
  "find P (xs @ [y]) = (case find P xs of None \<Rightarrow> (if P y then Some y else None) | Some x \<Rightarrow> Some x)"
  by (induction xs) auto

lemma stored_mtime_insert_or_ignore:
  "stored_mtime (insert_or_ignore_folder (t, n) s) x =
     (if x = n \<and> stored_mtime s n = None then Some (of_int t) else stored_mtime s x)"
proof -
  have ex: "list_ex (\<lambda>r. folder_name r = n) (t_folder s) \<longleftrightarrow> find (\<lambda>r. folder_name r = n) (t_folder s) \<noteq> None"
    by (auto simp: list_ex_iff find_None_iff)
  show ?thesis
    unfolding stored_mtime_def select_folder_def insert_or_ignore_folder_def
    using ex by (auto simp: find_append_single split: option.splits)
qed

lemma find_map_name_preserving:
  "(\<And>r. folder_name (g r) = folder_name r) \<Longrightarrow>
   find (\<lambda>r. folder_name r = x) (map g rows) = map_option g (find (\<lambda>r. folder_name r = x) rows)"
  by (induction rows) auto

lemma stored_mtime_update_folder:
  "stored_mtime (update_folder (t, n) s) x =
     (if x = n then map_option (\<lambda>_. of_int t) (stored_mtime s x) else stored_mtime s x)"
proof -
  let ?g = "\<lambda>r. if folder_name r = n then r\<lparr>folder_last_modified := of_int t\<rparr> else r"
  have f: "find (\<lambda>r. folder_name r = x) (map ?g (t_folder s))
           = map_option ?g (find (\<lambda>r. folder_name r = x) (t_folder s))"
    by (rule find_map_name_preserving) simp
  show ?thesis
  proof (cases "find (\<lambda>r. folder_name r = x) (t_folder s)")
    case None
    then show ?thesis
      using f by (auto simp: stored_mtime_def select_folder_def update_folder_def)
  next
    case (Some r)
    then have "folder_name r = x" by (auto simp: find_Some_iff)
    then show ?thesis
      using f Some by (auto simp: stored_mtime_def select_folder_def update_folder_def)
  qed
qed

lemma stored_mtime_fold_insert:
  "stored_mtime (fold insert_or_ignore_folder ins s) x =
     (if stored_mtime s x = None
      then (case find (\<lambda>p. snd p = x) ins of None \<Rightarrow> None | Some p \<Rightarrow> Some (of_int (fst p)))
      else stored_mtime s x)"
proof (induction ins arbitrary: s)
  case Nil
  then show ?case by simp
next
  case (Cons p ins)
  obtain t n where p: "p = (t, n)" by (cases p)
  show ?case
    unfolding p
    by (cases "stored_mtime s x") (auto simp: Cons.IH stored_mtime_insert_or_ignore)
qed

lemma stored_mtime_fold_update:
  "stored_mtime (fold update_folder (map (\<lambda>d. (tm d, d)) ds) s) x =
     (if x \<in> set ds then map_option (\<lambda>_. of_int (tm x)) (stored_mtime s x) else stored_mtime s x)"
proof (induction ds arbitrary: s)
  case Nil
  then show ?case by simp
next
  case (Cons d ds)
  show ?case
    by (cases "stored_mtime s x") (auto simp: Cons.IH stored_mtime_update_folder)
qed

lemma stored_mtime_after_upsert:
  "stored_mtime (fold update_folder (map (\<lambda>d. (tm d, d)) ds)
                   (fold insert_or_ignore_folder (map (\<lambda>d. (tm d, d)) ds) s)) x =
     (if x \<in> set ds then Some (of_int (tm x)) else stored_mtime s x)"
proof -
  have "find (\<lambda>p. snd p = x) (map (\<lambda>d. (tm d, d)) ds) = None \<longleftrightarrow> x \<notin> set ds"
    by (auto simp: find_None_iff)
  then show ?thesis
    by (auto simp: stored_mtime_fold_update stored_mtime_fold_insert split: option.splits)
qed

lemma update_modified_folders_result:
  "\<exists>ds. update_modified_folders env c =
          (c\<lparr>db := fold update_folder (map (\<lambda>d. (py_int (env_mtime env d), d)) ds)
                     (fold insert_or_ignore_folder (map (\<lambda>d. (py_int (env_mtime env d), d)) ds) (db c)),
             first_run := (first_run c \<and> ds = [])\<rparr>, ds)
        \<and> set ds \<subseteq> {d \<in> set (env_walk env (picture_dir c)). folder_out_of_date env (db c) d}
        \<and> (first_run c \<longrightarrow> length ds \<le> 1)
        \<and> (\<not> first_run c \<longrightarrow> ds = filter (folder_out_of_date env (db c)) (env_walk env (picture_dir c)))
        \<and> (first_run c \<longrightarrow> ds = (case find (folder_out_of_date env (db c)) (env_walk env (picture_dir c))
                                    of None \<Rightarrow> [] | Some d \<Rightarrow> [d]))"
proof -
  obtain ds where ds: "scan_folders env (db c) (env_walk env (picture_dir c)) (first_run c) [] [] =
          (first_run c \<and> ds = [], ds, map (\<lambda>d. (py_int (env_mtime env d), d)) ds)"
     and rest: "set ds \<subseteq> {d \<in> set (env_walk env (picture_dir c)). folder_out_of_date env (db c) d}"
        "first_run c \<longrightarrow> length ds \<le> 1"
        "\<not> first_run c \<longrightarrow> ds = filter (folder_out_of_date env (db c)) (env_walk env (picture_dir c))"
        "first_run c \<longrightarrow> ds = (case find (folder_out_of_date env (db c)) (env_walk env (picture_dir c))
                                    of None \<Rightarrow> [] | Some d \<Rightarrow> [d])"
    using scan_folders_shape[of env "db c" "env_walk env (picture_dir c)" "first_run c"] by blast
  have "update_modified_folders env c =
          (c\<lparr>db := fold update_folder (map (\<lambda>d. (py_int (env_mtime env d), d)) ds)
                     (fold insert_or_ignore_folder (map (\<lambda>d. (py_int (env_mtime env d), d)) ds) (db c)),
             first_run := (first_run c \<and> ds = [])\<rparr>, ds)"
    unfolding update_modified_folders_def ds by (cases ds) simp_all
  with rest show ?thesis by blast
qed
section \<open>Row ids and the UNIQUE key of the file table\<close>

lemma next_rowid_greater: "i \<in> set ids \<Longrightarrow> i < next_rowid ids"
proof (cases ids)
  case Nil
  then show "i \<in> set ids \<Longrightarrow> i < next_rowid ids" by simp
next
  case (Cons a rest)
  assume "i \<in> set ids"
  then have le: "i \<le> Max (set (a # rest))" using Cons by (intro Max_ge) auto
  have m: "fold max rest a = Max (set (a # rest))" by (simp only: Max.set_eq_fold)
  from le m have "i \<le> fold max rest a" by simp
  then show "i < next_rowid ids"
    using Cons by (simp add: next_rowid_def)
qed

lemma insert_or_replace_file_rows:
  assumes "insert_or_replace_file (dir, base, ext, tm) s = Inr s'"
  shows "\<exists>d. select_folder s dir = Some d
           \<and> t_file s' = filter (\<lambda>f. file_key f \<noteq> (folder_id d, base, ext)) (t_file s)
               @ [\<lparr>file_id = next_rowid (map file_id (t_file s)), file_folder_id = folder_id d,
                   basename = base, extension = ext, file_last_modified = tm\<rparr>]"
proof (cases "select_folder s dir")
  case None
  with assms show ?thesis by (simp add: insert_or_replace_file_def)
next
  case (Some d)
  have k: "(\<lambda>f. \<not> (file_folder_id f = folder_id d \<and> basename f = base \<and> extension f = ext))
        = (\<lambda>f. file_key f \<noteq> (folder_id d, base, ext))"
    by (rule ext) (simp add: file_key_def)
  have e: "insert_or_replace_file (dir, base, ext, tm) s = Inr (s\<lparr>t_file :=
          filter (\<lambda>f. \<not> (file_folder_id f = folder_id d \<and> basename f = base \<and> extension f = ext))
            (t_file s)
          @ [\<lparr>file_id = next_rowid (map file_id (t_file s)), file_folder_id = folder_id d,
              basename = base, extension = ext, file_last_modified = tm\<rparr>]\<rparr>)"
    by (simp add: insert_or_replace_file_def Some)
  have "s' = s\<lparr>t_file :=
          filter (\<lambda>f. \<not> (file_folder_id f = folder_id d \<and> basename f = base \<and> extension f = ext))
            (t_file s)
          @ [\<lparr>file_id = next_rowid (map file_id (t_file s)), file_folder_id = folder_id d,
              basename = base, extension = ext, file_last_modified = tm\<rparr>]\<rparr>"
    using e unfolding assms by (simp only: sum.inject)
  then show ?thesis unfolding k using Some by simp
qed

lemma tuple_key_frame:
  "t_folder s' = t_folder s \<Longrightarrow> tuple_key s' x = tuple_key s x"
  by (cases x) (simp add: tuple_key_def select_folder_def)

lemma insert_or_replace_file_effect:
  assumes "insert_or_replace_file x s = Inr s'"
  shows "\<exists>k row. tuple_key s x = Some k \<and> file_key row = k
           \<and> file_id row = next_rowid (map file_id (t_file s))
           \<and> t_file s' = filter (\<lambda>f. file_key f \<noteq> k) (t_file s) @ [row]"
proof -
  obtain dir base ext tm where x: "x = (dir, base, ext, tm)" by (cases x)
  from insert_or_replace_file_rows[OF assms[unfolded x]] obtain d where
    d: "select_folder s dir = Some d"
    and t: "t_file s' = filter (\<lambda>f. file_key f \<noteq> (folder_id d, base, ext)) (t_file s)
               @ [\<lparr>file_id = next_rowid (map file_id (t_file s)), file_folder_id = folder_id d,
                   basename = base, extension = ext, file_last_modified = tm\<rparr>]"
    by blast
  have "tuple_key s x = Some (folder_id d, base, ext)" by (simp add: x tuple_key_def d)
  moreover have "file_key \<lparr>file_id = next_rowid (map file_id (t_file s)), file_folder_id = folder_id d,
                   basename = base, extension = ext, file_last_modified = tm\<rparr> = (folder_id d, base, ext)"
    by (simp add: file_key_def)
  moreover have "file_id \<lparr>file_id = next_rowid (map file_id (t_file s)), file_folder_id = folder_id d,
                   basename = base, extension = ext, file_last_modified = tm\<rparr>
                 = next_rowid (map file_id (t_file s))" by simp
  ultimately show ?thesis using t by blast
qed

lemma replace_keeps_distinct:
  "distinct (map file_key rows) \<Longrightarrow> file_key row = k \<Longrightarrow>
   distinct (map file_key (filter (\<lambda>f. file_key f \<noteq> k) rows @ [row]))"
  by (auto simp: distinct_map_filter)

lemma executemany_file_distinct:
  "executemany insert_or_replace_file xs s = (s', None) \<Longrightarrow>
   distinct (map file_key (t_file s)) \<Longrightarrow> distinct (map file_key (t_file s'))"
proof (induction xs arbitrary: s)
  case Nil
  then show ?case by simp
next
  case (Cons x xs)
  from Cons.prems(1) obtain s1 where s1: "insert_or_replace_file x s = Inr s1"
    "executemany insert_or_replace_file xs s1 = (s', None)"
    by (auto split: sum.splits)
  from insert_or_replace_file_effect[OF s1(1)] obtain k row where
    kr: "file_key row = k" "t_file s1 = filter (\<lambda>f. file_key f \<noteq> k) (t_file s) @ [row]" by blast
  have "distinct (map file_key (t_file s1))"
    unfolding kr(2) by (rule replace_keeps_distinct[OF Cons.prems(2) kr(1)])
  then show ?case using Cons.IH[OF s1(2)] by simp
qed

lemma executemany_file_other_keys:
  "executemany insert_or_replace_file xs s = (s', None) \<Longrightarrow>
   Some k \<notin> tuple_key s ` set xs \<Longrightarrow>
   filter (\<lambda>f. file_key f = k) (t_file s') = filter (\<lambda>f. file_key f = k) (t_file s)"
proof (induction xs arbitrary: s)
  case Nil
  then show ?case by simp
next
  case (Cons x xs)
  from Cons.prems(1) obtain s1 where s1: "insert_or_replace_file x s = Inr s1"
    "executemany insert_or_replace_file xs s1 = (s', None)"
    by (auto split: sum.splits)
  have fr: "t_folder s1 = t_folder s" using insert_or_replace_file_frame(1)[OF s1(1)] .
  from insert_or_replace_file_effect[OF s1(1)] obtain k' row where
    kr: "tuple_key s x = Some k'" "file_key row = k'"
        "t_file s1 = filter (\<lambda>f. file_key f \<noteq> k') (t_file s) @ [row]" by blast
  have "k' \<noteq> k" using Cons.prems(2) kr(1) by force
  then have one: "filter (\<lambda>f. file_key f = k) (t_file s1) = filter (\<lambda>f. file_key f = k) (t_file s)"
    using kr(2,3) by (auto intro: filter_cong)
  have "Some k \<notin> tuple_key s1 ` set xs"
    using Cons.prems(2) tuple_key_frame[OF fr] by auto
  from Cons.IH[OF s1(2) this] one show ?case by simp
qed

lemma next_rowid_mono_replace:
  "next_rowid ids \<le> next_rowid (filter P ids @ [next_rowid ids])"
  using next_rowid_greater[of "next_rowid ids" "filter P ids @ [next_rowid ids]"] by simp

lemma executemany_file_fresh_row:
  "executemany insert_or_replace_file xs s = (s', None) \<Longrightarrow>
   Some k \<in> tuple_key s ` set xs \<Longrightarrow> B \<le> next_rowid (map file_id (t_file s)) \<Longrightarrow>
   \<exists>row. filter (\<lambda>f. file_key f = k) (t_file s') = [row] \<and> B \<le> file_id row"
proof (induction xs arbitrary: s)
  case Nil
  then show ?case by simp
next
  case (Cons x xs)
  from Cons.prems(1) obtain s1 where s1: "insert_or_replace_file x s = Inr s1"
    "executemany insert_or_replace_file xs s1 = (s', None)"
    by (auto split: sum.splits)
  have fr: "t_folder s1 = t_folder s" using insert_or_replace_file_frame(1)[OF s1(1)] .
  from insert_or_replace_file_effect[OF s1(1)] obtain k' row where
    kr: "tuple_key s x = Some k'" "file_key row = k'"
        "file_id row = next_rowid (map file_id (t_file s))"
        "t_file s1 = filter (\<lambda>f. file_key f \<noteq> k') (t_file s) @ [row]" by blast
  have "next_rowid (map file_id (t_file s)) < next_rowid (map file_id (t_file s1))"
    by (rule next_rowid_greater) (simp add: kr(3,4))
  then have B1: "B \<le> next_rowid (map file_id (t_file s1))" using Cons.prems(3) by simp
  show ?case
  proof (cases "Some k \<in> tuple_key s1 ` set xs")
    case True
    from Cons.IH[OF s1(2) True B1] show ?thesis .
  next
    case False
    then have "Some k \<notin> tuple_key s ` set xs" using tuple_key_frame[OF fr] by auto
    with Cons.prems(2) have "k' = k" using kr(1) by auto
    then have "filter (\<lambda>f. file_key f = k) (t_file s1) = [row]"
      using kr(2,4) by (auto simp: filter_empty_conv)
    moreover have "filter (\<lambda>f. file_key f = k) (t_file s') = filter (\<lambda>f. file_key f = k) (t_file s1)"
      by (rule executemany_file_other_keys[OF s1(2) False])
    ultimately show ?thesis using kr(3) Cons.prems(3) by simp
  qed
qed
section \<open>The view as groups of rows that share file, folder and meta row\<close>

lemma concat_map_concat:
  "concat (map g (concat xss)) = concat (map (\<lambda>xs. concat (map g xs)) xss)"
  by (induction xss) auto

lemma all_data_groups: "all_data s = concat (map (group_rows s) (view_groups s))"
  by (simp add: all_data_def view_groups_def group_rows_def concat_map_concat comp_def)

lemma left_join_not_empty: "left_join on rows \<noteq> []"
  by (simp add: left_join_def split: list.splits)

lemma group_rows_not_empty: "group_rows s g \<noteq> []"
  by (cases g) (simp add: group_rows_def left_join_not_empty)

lemma group_rows_meta:
  "r \<in> set (group_rows s (f, d, mo)) \<Longrightarrow> v_meta r = mo"
  by (auto simp: group_rows_def mk_view_row_def)

lemma find_skip_prefix:
  "\<forall>r\<in>set ys. \<not> P r \<Longrightarrow> find P (ys @ zs) = find P zs"
  by (induction ys) auto

lemma find_concat_groups:
  assumes "\<And>x. x \<in> set xs \<Longrightarrow> g x \<noteq> []"
    and "\<And>x r. x \<in> set xs \<Longrightarrow> r \<in> set (g x) \<Longrightarrow> P r = Q x"
  shows "find P (concat (map g xs)) = map_option (\<lambda>x. hd (g x)) (find Q xs)"
  using assms
proof (induction xs)
  case Nil
  then show ?case by simp
next
  case (Cons x xs)
  have ih: "find P (concat (map g xs)) = map_option (\<lambda>x. hd (g x)) (find Q xs)"
    using Cons by simp
  obtain y ys where g: "g x = y # ys" using Cons.prems(1)[of x] by (cases "g x") auto
  have all: "\<And>r. r \<in> set (g x) \<Longrightarrow> P r = Q x" using Cons.prems(2) by simp
  show ?case
  proof (cases "Q x")
    case True
    then have "P y" using all g by simp
    then show ?thesis using True g by simp
  next
    case False
    then have "\<forall>r\<in>set (g x). \<not> P r" using all by simp
    then have "find P (g x @ concat (map g xs)) = find P (concat (map g xs))"
      by (rule find_skip_prefix)
    then show ?thesis using False ih by simp
  qed
qed

lemma select_file_id_groups:
  "select_file_id s i =
     map_option (\<lambda>g. hd (group_rows s g))
       (find (\<lambda>(f, d, mo). map_option m_file_id mo = Some i) (view_groups s))"
  unfolding select_file_id_def all_data_groups
proof (rule find_concat_groups)
  fix x assume "x \<in> set (view_groups s)"
  show "group_rows s x \<noteq> []" by (rule group_rows_not_empty)
next
  fix x r assume "x \<in> set (view_groups s)" "r \<in> set (group_rows s x)"
  then show "(v_file_id r = Some i) = (case x of (f, d, mo) \<Rightarrow> map_option m_file_id mo = Some i)"
    by (cases x) (auto simp: v_file_id_def dest: group_rows_meta)
qed

lemma view_groups_location [simp]:
  "view_groups (insert_or_replace_location lat lon descr s) = view_groups s"
  by (simp add: view_groups_def insert_or_replace_location_def)

lemma left_join_new_location:
  assumes "m_latitude m = Some lat" and "m_longitude m = Some lon"
  shows "left_join (location_on (Some m))
           (t_location (insert_or_replace_location lat lon descr s))
         = [Some \<lparr>location_id = next_rowid (map location_id (t_location s)),
                  loc_latitude = Some lat, loc_longitude = Some lon,
                  loc_description = Some descr\<rparr>]"
proof -
  have "filter (location_on (Some m))
          (filter (\<lambda>l. \<not> (loc_latitude l = Some lat \<and> loc_longitude l = Some lon)) (t_location s)) = []"
    using assms by (auto simp: filter_empty_conv location_on_def sql_eq_def)
  then show ?thesis
    using assms
    by (simp add: left_join_def insert_or_replace_location_def location_on_def sql_eq_def)
qed
section \<open>Deletes and their cascades\<close>

lemma fold_clean_meta_trigger:
  "t_folder (fold clean_meta_trigger olds s) = t_folder s
   \<and> t_file (fold clean_meta_trigger olds s) = t_file s
   \<and> t_location (fold clean_meta_trigger olds s) = t_location s
   \<and> t_meta (fold clean_meta_trigger olds s)
       = filter (\<lambda>m. m_file_id m \<notin> file_id ` set olds) (t_meta s)"
proof (induction olds arbitrary: s)
  case Nil
  then show ?case by simp
next
  case (Cons old olds)
  show ?case
    by (simp add: Cons.IH) (auto simp: clean_meta_trigger_def intro!: filter_cong)
qed

lemma delete_from_file_tables:
  "t_folder (delete_from_file cond s) = t_folder s"
  "t_location (delete_from_file cond s) = t_location s"
  "t_file (delete_from_file cond s) = filter (\<lambda>f. \<not> cond f) (t_file s)"
  "t_meta (delete_from_file cond s)
     = filter (\<lambda>m. m_file_id m \<notin> file_id ` {f \<in> set (t_file s). cond f}) (t_meta s)"
  by (simp_all add: delete_from_file_def fold_clean_meta_trigger)

lemma fold_clean_file_trigger:
  "t_folder (fold clean_file_trigger olds s) = t_folder s
   \<and> t_location (fold clean_file_trigger olds s) = t_location s
   \<and> t_file (fold clean_file_trigger olds s)
       = filter (\<lambda>f. file_folder_id f \<notin> folder_id ` set olds) (t_file s)
   \<and> t_meta (fold clean_file_trigger olds s)
       = filter (\<lambda>m. m_file_id m \<notin> file_id ` {f \<in> set (t_file s).
                         file_folder_id f \<in> folder_id ` set olds}) (t_meta s)"
proof (induction olds arbitrary: s)
  case Nil
  then show ?case by simp
next
  case (Cons old olds)
  have f: "t_file (clean_file_trigger old s)
           = filter (\<lambda>f. file_folder_id f \<noteq> folder_id old) (t_file s)"
    by (simp add: clean_file_trigger_def delete_from_file_tables)
  have m: "t_meta (clean_file_trigger old s)
           = filter (\<lambda>m. m_file_id m \<notin> file_id ` {f \<in> set (t_file s).
                         file_folder_id f = folder_id old}) (t_meta s)"
    by (simp add: clean_file_trigger_def delete_from_file_tables)
  have o: "t_folder (clean_file_trigger old s) = t_folder s"
       "t_location (clean_file_trigger old s) = t_location s"
    by (simp_all add: clean_file_trigger_def delete_from_file_tables)
  have tf: "t_file (fold clean_file_trigger (old # olds) s)
       = filter (\<lambda>f. file_folder_id f \<notin> folder_id ` set (old # olds)) (t_file s)"
    by (simp add: Cons.IH f)
  have tm: "t_meta (fold clean_file_trigger (old # olds) s)
       = filter (\<lambda>m. m_file_id m \<notin> file_id ` {f \<in> set (t_file s).
                         file_folder_id f \<in> folder_id ` set (old # olds)}) (t_meta s)"
    by (simp add: Cons.IH f m) (rule filter_cong, simp, blast)
  from tf tm o show ?case by (simp add: Cons.IH)
qed

lemma delete_folder_tables:
  "t_location (delete_folder i s) = t_location s"
  "t_folder (delete_folder i s) = filter (\<lambda>d. folder_id d \<noteq> i) (t_folder s)"
  "t_file (delete_folder i s)
     = filter (\<lambda>f. file_folder_id f \<notin> {i} \<inter> folder_id ` set (t_folder s)) (t_file s)"
  "t_meta (delete_folder i s)
     = filter (\<lambda>m. m_file_id m \<notin> file_id ` {f \<in> set (t_file s).
                       file_folder_id f \<in> {i} \<inter> folder_id ` set (t_folder s)}) (t_meta s)"
proof -
  have ids: "folder_id ` set (filter (\<lambda>d. folder_id d = i) (t_folder s))
             = {i} \<inter> folder_id ` set (t_folder s)" by auto
  show "t_location (delete_folder i s) = t_location s"
    "t_folder (delete_folder i s) = filter (\<lambda>d. folder_id d \<noteq> i) (t_folder s)"
    by (simp_all add: delete_folder_def fold_clean_file_trigger)
  show "t_file (delete_folder i s)
     = filter (\<lambda>f. file_folder_id f \<notin> {i} \<inter> folder_id ` set (t_folder s)) (t_file s)"
    unfolding delete_folder_def by (simp only: fold_clean_file_trigger ids) simp
  show "t_meta (delete_folder i s)
     = filter (\<lambda>m. m_file_id m \<notin> file_id ` {f \<in> set (t_file s).
                       file_folder_id f \<in> {i} \<inter> folder_id ` set (t_folder s)}) (t_meta s)"
    unfolding delete_folder_def by (simp only: fold_clean_file_trigger ids) simp
qed

lemma fold_delete_folder:
  "t_location (fold delete_folder ids s) = t_location s
   \<and> t_folder (fold delete_folder ids s) = filter (\<lambda>d. folder_id d \<notin> set ids) (t_folder s)
   \<and> t_file (fold delete_folder ids s)
       = filter (\<lambda>f. file_folder_id f \<notin> set ids \<inter> folder_id ` set (t_folder s)) (t_file s)
   \<and> t_meta (fold delete_folder ids s)
       = filter (\<lambda>m. m_file_id m \<notin> file_id ` {f \<in> set (t_file s).
                         file_folder_id f \<in> set ids \<inter> folder_id ` set (t_folder s)}) (t_meta s)"
proof (induction ids arbitrary: s)
  case Nil
  then show ?case by simp
next
  case (Cons i ids)
  let ?s1 = "delete_folder i s"
  have fo: "folder_id ` set (t_folder ?s1) = folder_id ` set (t_folder s) - {i}"
    by (auto simp: delete_folder_tables)
  have tf: "t_file (fold delete_folder (i # ids) s)
       = filter (\<lambda>f. file_folder_id f \<notin> set (i # ids) \<inter> folder_id ` set (t_folder s)) (t_file s)"
    by (simp add: Cons.IH fo delete_folder_tables) (rule filter_cong, simp, blast)
  have tm: "t_meta (fold delete_folder (i # ids) s)
       = filter (\<lambda>m. m_file_id m \<notin> file_id ` {f \<in> set (t_file s).
                         file_folder_id f \<in> set (i # ids) \<inter> folder_id ` set (t_folder s)}) (t_meta s)"
    by (simp add: Cons.IH fo delete_folder_tables) (rule filter_cong, simp, blast)
  have td: "t_folder (fold delete_folder (i # ids) s)
       = filter (\<lambda>d. folder_id d \<notin> set (i # ids)) (t_folder s)"
    by (simp add: Cons.IH delete_folder_tables)
  from tf tm td show ?case by (simp add: Cons.IH delete_folder_tables)
qed

lemma delete_file_tables:
  "t_folder (delete_file io s) = t_folder s"
  "t_location (delete_file io s) = t_location s"
  "t_file (delete_file io s) = filter (\<lambda>f. Some (file_id f) \<noteq> io) (t_file s)"
  "t_meta (delete_file io s)
     = filter (\<lambda>m. m_file_id m \<notin> file_id ` {f \<in> set (t_file s). Some (file_id f) = io}) (t_meta s)"
  by (cases io; simp add: delete_file_def delete_from_file_tables)+

lemma fold_delete_file:
  "t_folder (fold delete_file ios s) = t_folder s
   \<and> t_location (fold delete_file ios s) = t_location s
   \<and> t_file (fold delete_file ios s) = filter (\<lambda>f. Some (file_id f) \<notin> set ios) (t_file s)
   \<and> t_meta (fold delete_file ios s)
       = filter (\<lambda>m. m_file_id m \<notin> file_id ` {f \<in> set (t_file s). Some (file_id f) \<in> set ios})
           (t_meta s)"
proof (induction ios arbitrary: s)
  case Nil
  then show ?case by simp
next
  case (Cons io ios)
  have tf: "t_file (fold delete_file (io # ios) s)
       = filter (\<lambda>f. Some (file_id f) \<notin> set (io # ios)) (t_file s)"
    by (simp add: Cons.IH delete_file_tables)
  have tm: "t_meta (fold delete_file (io # ios) s)
       = filter (\<lambda>m. m_file_id m \<notin> file_id ` {f \<in> set (t_file s). Some (file_id f) \<in> set (io # ios)})
           (t_meta s)"
    by (simp add: Cons.IH delete_file_tables) (rule filter_cong, simp, blast)
  from tf tm show ?case by (simp add: Cons.IH delete_file_tables)
qed

lemma store_eqI:
  "t_folder s = t_folder s' \<Longrightarrow> t_file s = t_file s' \<Longrightarrow> t_meta s = t_meta s' \<Longrightarrow>
   t_location s = t_location s' \<Longrightarrow> s = (s' :: store)"
  by simp

lemma fold_delete_file_nulls:
  assumes "\<forall>io\<in>set ios. io = None"
  shows "fold delete_file ios s = s"
proof (rule store_eqI)
  have no: "\<And>f. Some (file_id f) \<notin> set ios" using assms by auto
  show "t_folder (fold delete_file ios s) = t_folder s"
    "t_location (fold delete_file ios s) = t_location s" by (simp_all add: fold_delete_file)
  show "t_file (fold delete_file ios s) = t_file s" by (simp add: fold_delete_file no)
  show "t_meta (fold delete_file ios s) = t_meta s" by (simp add: fold_delete_file no)
qed

section \<open>Membership in the view\<close>

lemma left_join_Some: "Some m \<in> set (left_join on rows) \<longleftrightarrow> m \<in> set rows \<and> on m"
proof (cases "filter on rows")
  case Nil
  then show ?thesis by (auto simp: left_join_def filter_empty_conv)
next
  case (Cons a list)
  then have "set (left_join on rows) = Some ` set (filter on rows)"
    by (simp add: left_join_def)
  then show ?thesis by auto
qed

lemma view_groups_member:
  "(f, d, mo) \<in> set (view_groups s) \<longleftrightarrow>
     f \<in> set (t_file s) \<and> d \<in> set (t_folder s) \<and> folder_id d = file_folder_id f
     \<and> mo \<in> set (left_join (\<lambda>m. m_file_id m = file_id f) (t_meta s))"
  by (auto simp: view_groups_def)

lemma all_data_member:
  "row \<in> set (all_data s) \<longleftrightarrow> (\<exists>g\<in>set (view_groups s). row \<in> set (group_rows s g))"
  by (simp add: all_data_groups)

lemma group_rows_fname:
  "row \<in> set (group_rows s (f, d, mo)) \<Longrightarrow>
   fname row = folder_name d @ ''/'' @ basename f @ ''.'' @ extension f \<and> v_meta row = mo"
  by (auto simp: group_rows_def mk_view_row_def)

section \<open>The purge pass\<close>

lemma purge_two_stages:
  "purge_missing_files_and_folders env c = c\<lparr>db := purge_files env (purge_folders env (db c))\<rparr>"
  by (simp add: purge_missing_files_and_folders_def purge_files_def purge_folders_def Let_def)

lemma purge_folders_tables:
  "t_location (purge_folders env s) = t_location s"
  "t_folder (purge_folders env s)
     = filter (\<lambda>d. folder_id d \<notin> missing_folder_ids env s) (t_folder s)"
  "t_file (purge_folders env s)
     = filter (\<lambda>f. file_folder_id f \<notin> missing_folder_ids env s) (t_file s)"
  "t_meta (purge_folders env s)
     = filter (\<lambda>m. m_file_id m \<notin> file_id ` {f \<in> set (t_file s).
                       file_folder_id f \<in> missing_folder_ids env s}) (t_meta s)"
proof -
  let ?ids = "map folder_id (filter (\<lambda>row. \<not> env_exists env (folder_name row)) (t_folder s))"
  have a: "set ?ids = missing_folder_ids env s" by (auto simp: missing_folder_ids_def)
  have b: "set ?ids \<inter> folder_id ` set (t_folder s) = missing_folder_ids env s"
    by (auto simp: missing_folder_ids_def)
  show "t_location (purge_folders env s) = t_location s"
    by (simp add: purge_folders_def fold_delete_folder)
  show "t_folder (purge_folders env s)
     = filter (\<lambda>d. folder_id d \<notin> missing_folder_ids env s) (t_folder s)"
    unfolding purge_folders_def by (simp only: fold_delete_folder a)
  show "t_file (purge_folders env s)
     = filter (\<lambda>f. file_folder_id f \<notin> missing_folder_ids env s) (t_file s)"
    unfolding purge_folders_def by (simp only: fold_delete_folder b)
  show "t_meta (purge_folders env s)
     = filter (\<lambda>m. m_file_id m \<notin> file_id ` {f \<in> set (t_file s).
                       file_folder_id f \<in> missing_folder_ids env s}) (t_meta s)"
    unfolding purge_folders_def by (simp only: fold_delete_folder b)
qed

lemma purge_folders_rest_exist:
  "d \<in> set (t_folder (purge_folders env s)) \<Longrightarrow> env_exists env (folder_name d)"
  by (auto simp: purge_folders_tables missing_folder_ids_def)

lemma purge_files_tables:
  "t_folder (purge_files env s) = t_folder s"
  "t_location (purge_files env s) = t_location s"
  "set (t_file (purge_files env s)) \<subseteq> set (t_file s)"
  "set (t_meta (purge_files env s)) \<subseteq> set (t_meta s)"
  by (auto simp: purge_files_def fold_delete_file)

lemma purge_files_removed:
  assumes "f \<in> set (t_file (purge_files env s))"
    and "row \<in> set (all_data s)" and "\<not> env_exists env (fname row)"
  shows "v_file_id row \<noteq> Some (file_id f)"
proof
  assume "v_file_id row = Some (file_id f)"
  then have "Some (file_id f) \<in> set (map v_file_id
       (filter (\<lambda>row. \<not> env_exists env (fname row)) (all_data s)))"
    using assms(2,3) by force
  then show False using assms(1) by (simp add: purge_files_def fold_delete_file)
qed

lemma purge_files_nothing_left:
  assumes "row \<in> set (all_data (purge_files env s))" and "\<not> env_exists env (fname row)"
  shows "v_file_id row = None"
proof (rule ccontr)
  assume "v_file_id row \<noteq> None"
  then obtain k where k: "v_file_id row = Some k" by auto
  let ?s2 = "purge_files env s"
  from assms(1) obtain f d mo where g: "(f, d, mo) \<in> set (view_groups ?s2)"
    and r: "row \<in> set (group_rows ?s2 (f, d, mo))"
    by (auto simp: all_data_member)
  from group_rows_fname[OF r] have fn: "fname row = folder_name d @ ''/'' @ basename f @ ''.'' @ extension f"
    and vm: "v_meta row = mo" by simp_all
  from k vm obtain m where m: "mo = Some m" "m_file_id m = k" by (auto simp: v_file_id_def)
  from g m have mem: "f \<in> set (t_file ?s2)" "d \<in> set (t_folder ?s2)"
    "folder_id d = file_folder_id f" "m \<in> set (t_meta ?s2)" "m_file_id m = file_id f"
    by (auto simp: view_groups_member left_join_Some)
  have "(f, d, Some m) \<in> set (view_groups s)"
    using mem purge_files_tables[of env s]
    by (auto simp: view_groups_member left_join_Some)
  moreover obtain row1 where row1: "row1 \<in> set (group_rows s (f, d, Some m))"
    using group_rows_not_empty[of s "(f, d, Some m)"] by (cases "group_rows s (f, d, Some m)") auto
  ultimately have in1: "row1 \<in> set (all_data s)" by (auto simp: all_data_member)
  from group_rows_fname[OF row1] fn assms(2) have "\<not> env_exists env (fname row1)"
    and "v_file_id row1 = Some (file_id f)"
    using mem(5) by (simp_all add: v_file_id_def)
  with purge_files_removed[OF mem(1) in1] show False by simp
qed

lemma purge_files_idem: "purge_files env (purge_files env s) = purge_files env s"
proof -
  have "\<forall>io\<in>set (map v_file_id (filter (\<lambda>row. \<not> env_exists env (fname row))
                       (all_data (purge_files env s)))). io = None"
    using purge_files_nothing_left by auto
  then show ?thesis
    unfolding purge_files_def[of env "purge_files env s"] by (rule fold_delete_file_nulls)
qed

lemma purge_folders_nothing_left:
  assumes "\<forall>d\<in>set (t_folder s). env_exists env (folder_name d)"
  shows "purge_folders env s = s"
proof -
  have "filter (\<lambda>row. \<not> env_exists env (folder_name row)) (t_folder s) = []"
    using assms by (simp add: filter_empty_conv)
  then show ?thesis by (simp add: purge_folders_def)
qed

lemma purge_idem:
  "purge_missing_files_and_folders env (purge_missing_files_and_folders env c)
   = purge_missing_files_and_folders env c"
proof -
  let ?s2 = "purge_files env (purge_folders env (db c))"
  have "\<forall>d\<in>set (t_folder ?s2). env_exists env (folder_name d)"
    using purge_folders_rest_exist by (simp add: purge_files_tables)
  then have "purge_folders env ?s2 = ?s2" by (rule purge_folders_nothing_left)
  then show ?thesis by (simp add: purge_two_stages purge_files_idem)
qed

section \<open>A cycle that finds no folder out of date\<close>

lemma update_modified_folders_idle:
  assumes "\<forall>dir\<in>set (env_walk env (picture_dir c)). \<not> folder_out_of_date env (db c) dir"
  shows "update_modified_folders env c = (c, [])"
proof -
  obtain ds where r: "update_modified_folders env c =
          (c\<lparr>db := fold update_folder (map (\<lambda>d. (py_int (env_mtime env d), d)) ds)
                     (fold insert_or_ignore_folder (map (\<lambda>d. (py_int (env_mtime env d), d)) ds) (db c)),
             first_run := (first_run c \<and> ds = [])\<rparr>, ds)"
    and sub: "set ds \<subseteq> {d \<in> set (env_walk env (picture_dir c)). folder_out_of_date env (db c) d}"
    using update_modified_folders_result[of env c] by blast
  have "ds = []"
  proof (cases ds)
    case Nil
    then show ?thesis .
  next
    case (Cons x xs)
    then have "x \<in> set ds" by simp
    with sub have "x \<in> set (env_walk env (picture_dir c))" "folder_out_of_date env (db c) x"
      by auto
    with assms show ?thesis by simp
  qed
  with r show ?thesis by simp
qed

lemma idle_cycle_is_purge:
  assumes "\<forall>dir\<in>set (env_walk env (picture_dir c)). \<not> folder_out_of_date env (db c) dir"
  shows "update_cache env c = (purge_missing_files_and_folders env c, Inr ([], []))"
  by (simp add: update_cache_def update_modified_folders_idle[OF assms]
        update_modified_files_def file_entries_def update_meta_data_def)

section \<open>Evaluation on the concrete stores\<close>

lemma trunc_select_fname:
  "select_fname trunc_store ''/p/a.jpg'' =
     Some \<lparr>fname = ''/p/a.jpg'', last_modified = 1002 / 10, v_meta = None, v_location = None\<rparr>"
  by (simp add: select_fname_def all_data_def trunc_store_def left_join_def mk_view_row_def)

lemma get_exif_info_gps_env:
  "get_exif_info gps_env ''/p/a.jpg'' =
     Inr \<lparr>e_orientation = 1, e_width = 4000, e_height = 3000, e_f_number = None, e_make = None,
          e_model = None, e_exposure_time = None, e_iso = None, e_focal_length = None,
          e_rating = None, e_lens = None, e_exif_datetime = 100,
          e_latitude = Some (515012 / 10000), e_longitude = Some (- (1278 / 10000))\<rparr>"
  by (simp add: get_exif_info_def gps_env_def gps_exifs_def Let_def py_round4_def round_half_even_def)

lemma all_data_pairing_store:
  "all_data pairing_store =
     [\<lparr>fname = ''/p/a.jpg'', last_modified = 5, v_meta = Some (demo_meta 1 10 4 3), v_location = None\<rparr>,
      \<lparr>fname = ''/p/b.jpg'', last_modified = 5, v_meta = Some (demo_meta 2 20 3 4), v_location = None\<rparr>,
      \<lparr>fname = ''/p/c.jpg'', last_modified = 5, v_meta = Some (demo_meta 3 30 3 4), v_location = None\<rparr>,
      \<lparr>fname = ''/p/d.jpg'', last_modified = 5, v_meta = Some (demo_meta 4 40 4 3), v_location = None\<rparr>]"
  by (simp add: all_data_def pairing_store_def demo_file_def demo_meta_def left_join_def
        mk_view_row_def location_on_def)

section \<open>Portrait pairing\<close>









subsection \<open>The result of a statement with \<open>ORDER BY\<close>\<close>
















section \<open>Cascade on a removed folder\<close>
























section \<open>Failure of the metadata extraction\<close>

lemma corrupt_folders:
  "update_modified_folders corrupt_env fresh_cache =
     (fresh_cache\<lparr>db := empty_store\<lparr>t_folder := [\<lparr>folder_id = 1, folder_name = ''/p'', folder_last_modified = 100\<rparr>]\<rparr>,
                   first_run := False\<rparr>, [''/p''])"
  by (simp add: update_modified_folders_def corrupt_env_def fresh_cache_def empty_store_def
        folder_out_of_date_def select_folder_def py_int_def insert_or_ignore_folder_def
        update_folder_def next_rowid_def)

lemma corrupt_entries:
  "file_entries corrupt_env (empty_store\<lparr>t_folder := [\<lparr>folder_id = 1, folder_name = ''/p'', folder_last_modified = 100\<rparr>]\<rparr>) [''/p'']
   = [(''/p/a.jpg'', ''/p'', ''a'', ''jpg'', 100), (''/p/b.jpg'', ''/p'', ''b'', ''jpg'', 100)]"
  by (simp add: file_entries_def file_entry_def corrupt_env_def empty_store_def splitext_def
        lower_def lower_char_def EXTENSIONS_def startswith_def endswith_def path_join_def
        select_fname_def all_data_def lstrip_def)

lemma corrupt_files:
  "update_modified_files corrupt_env
     (fresh_cache\<lparr>db := empty_store\<lparr>t_folder := [\<lparr>folder_id = 1, folder_name = ''/p'', folder_last_modified = 100\<rparr>]\<rparr>,
                   first_run := False\<rparr>) [''/p'']
   = (fresh_cache\<lparr>db := \<lparr>t_folder = [\<lparr>folder_id = 1, folder_name = ''/p'', folder_last_modified = 100\<rparr>],
        t_file = [\<lparr>file_id = 1, file_folder_id = 1, basename = ''a'', extension = ''jpg'', file_last_modified = 100\<rparr>,
                  \<lparr>file_id = 2, file_folder_id = 1, basename = ''b'', extension = ''jpg'', file_last_modified = 100\<rparr>],
        t_meta = [], t_location = []\<rparr>, first_run := False\<rparr>,
      Inr [''/p/a.jpg'', ''/p/b.jpg''])"
  by (simp add: update_modified_files_def corrupt_entries Let_def fresh_cache_def)
     (simp add: insert_or_replace_file_def select_folder_def empty_store_def next_rowid_def)

lemma corrupt_good: "get_exif_info corrupt_env ''/p/a.jpg'' =
     Inr \<lparr>e_orientation = 1, e_width = 4000, e_height = 3000, e_f_number = None, e_make = None,
          e_model = None, e_exposure_time = None, e_iso = None, e_focal_length = None,
          e_rating = None, e_lens = None, e_exif_datetime = 1577934245,
          e_latitude = None, e_longitude = None\<rparr>"
  by (simp add: get_exif_info_def corrupt_env_def dated_exifs_def Let_def)

lemma corrupt_bad: "get_exif_info corrupt_env ''/p/b.jpg'' = Inl ValueError"
  by (simp add: get_exif_info_def corrupt_env_def dated_exifs_def Let_def)

lemma corrupt_cycle:
  "snd (update_cache corrupt_env fresh_cache) = Inl ValueError
   \<and> map file_id (t_file (db (fst (update_cache corrupt_env fresh_cache)))) = [1, 2]
   \<and> t_meta (db (fst (update_cache corrupt_env fresh_cache))) = []"
  by (simp add: corrupt_good corrupt_bad update_cache_def corrupt_folders corrupt_files
        update_meta_data_def)

lemma update_cache_error_meta:
  assumes "update_cache env c = (c', Inl err)"
  shows "t_meta (db c') = t_meta (db c)"
proof -
  obtain c1 dirs where s1: "update_modified_folders env c = (c1, dirs)" by fastforce
  obtain c2 r where s2: "update_modified_files env c1 dirs = (c2, r)" by fastforce
  have "c' = c2"
    using assms s1 s2 by (auto simp: update_cache_def split: sum.splits)
  moreover have "t_meta (db c2) = t_meta (db c1)"
    using update_modified_files_frame(2)[of env c1 dirs] s2 by simp
  moreover have "t_meta (db c1) = t_meta (db c)"
    using update_modified_folders_frame(2)[of env c] s1 by simp
  ultimately show ?thesis by simp
qed

lemma unparsable_timestamp_raises:
  "env_image_meta env f = Inr x \<Longrightarrow> get_exif x ''EXIF DateTimeOriginal'' = Some (SText v) \<Longrightarrow>
   env_strptime env v = None \<Longrightarrow> get_exif_info env f = Inl ValueError"
  by (simp add: get_exif_info_def Let_def split: prod.splits)

lemma collect_meta_first_failure:
  "\<forall>g\<in>set pre. \<exists>e. get_exif_info env g = Inr e \<Longrightarrow> get_exif_info env f = Inl err \<Longrightarrow>
   collect_meta env (pre @ f # post) = Inl err"
  by (induction pre) auto

lemma update_cache_extraction_failure:
  assumes s1: "update_modified_folders env c = (c1, dirs)"
    and s2: "update_modified_files env c1 dirs = (c2, Inr files)"
    and f: "files = pre @ f # post" "\<forall>g\<in>set pre. \<exists>e. get_exif_info env g = Inr e"
       "get_exif_info env f = Inl err"
  shows "update_cache env c = (c2, Inl err)"
proof -
  have "update_meta_data env c2 files = Inl err"
    using collect_meta_first_failure[OF f(2,3), of post] f(1) by (simp add: update_meta_data_def)
  then show ?thesis using s1 s2 by (simp add: update_cache_def)
qed

text \<open>
  Claim C3, as the code has it. \<open>__update_meta_data\<close> has no handler around
  \<open>__get_exif_info\<close>. A failure on a file of the batch (an exception of the extraction
  capability, or a capture timestamp that \<open>strptime\<close> rejects) is not isolated: the exception
  of the first failing file leaves the method before its \<open>executemany\<close> and ends the update
  cycle, after the File rows of the batch have been written and before the purge pass. No Meta
  row is written for any file of the batch, neither for the files extracted before the failing
  one nor for those after it: a cycle that ends in an exception leaves the Meta table as it
  found it.
\<close>

theorem extraction_failure_propagates:
  "((\<exists>f\<in>set files. \<exists>err. get_exif_info env f = Inl err) \<longrightarrow>
      (\<exists>err. update_meta_data env c files = Inl err))
   \<and> (files = pre @ f # post \<and> (\<forall>g\<in>set pre. \<exists>e. get_exif_info env g = Inr e)
        \<and> get_exif_info env f = Inl err \<longrightarrow>
      update_meta_data env c files = Inl err
      \<and> (\<forall>c1 dirs c2. update_modified_folders env c = (c1, dirs)
            \<and> update_modified_files env c1 dirs = (c2, Inr files) \<longrightarrow>
          update_cache env c = (c2, Inl err) \<and> t_meta (db c2) = t_meta (db c)))
   \<and> (update_cache env c = (c', Inl err) \<longrightarrow> t_meta (db c') = t_meta (db c))
   \<and> (env_image_meta env f = Inr x \<and> get_exif x ''EXIF DateTimeOriginal'' = Some (SText v)
        \<and> env_strptime env v = None \<longrightarrow> get_exif_info env f = Inl ValueError)"
proof -
  have a: "\<exists>err. update_meta_data env c files = Inl err"
    if "\<exists>f\<in>set files. \<exists>err. get_exif_info env f = Inl err"
  proof -
    from that obtain f err where "f \<in> set files" "get_exif_info env f = Inl err" by blast
    then obtain err' where "collect_meta env files = Inl err'"
      using collect_meta_fails by blast
    then show ?thesis by (simp add: update_meta_data_def)
  qed
  have b: "update_meta_data env c files = Inl err
      \<and> (\<forall>c1 dirs c2. update_modified_folders env c = (c1, dirs)
            \<and> update_modified_files env c1 dirs = (c2, Inr files) \<longrightarrow>
          update_cache env c = (c2, Inl err) \<and> t_meta (db c2) = t_meta (db c))"
    if h: "files = pre @ f # post \<and> (\<forall>g\<in>set pre. \<exists>e. get_exif_info env g = Inr e)
        \<and> get_exif_info env f = Inl err"
  proof (intro conjI allI impI)
    from h have p: "\<forall>g\<in>set pre. \<exists>e. get_exif_info env g = Inr e"
      and e: "get_exif_info env f = Inl err" and fs: "files = pre @ f # post" by simp_all
    show "update_meta_data env c files = Inl err"
      using collect_meta_first_failure[OF p e, of post] fs by (simp add: update_meta_data_def)
    fix c1 dirs c2
    assume s: "update_modified_folders env c = (c1, dirs)
            \<and> update_modified_files env c1 dirs = (c2, Inr files)"
    then have s1: "update_modified_folders env c = (c1, dirs)"
      and s2: "update_modified_files env c1 dirs = (c2, Inr files)" by simp_all
    show u: "update_cache env c = (c2, Inl err)"
      by (rule update_cache_extraction_failure[OF s1 s2 fs p e])
    show "t_meta (db c2) = t_meta (db c)"
      by (rule update_cache_error_meta[OF u])
  qed
  have c: "update_cache env c = (c', Inl err) \<longrightarrow> t_meta (db c') = t_meta (db c)"
    using update_cache_error_meta by blast
  have d: "env_image_meta env f = Inr x \<and> get_exif x ''EXIF DateTimeOriginal'' = Some (SText v)
        \<and> env_strptime env v = None \<longrightarrow> get_exif_info env f = Inl ValueError"
    using unparsable_timestamp_raises by blast
  from a have a': "(\<exists>f\<in>set files. \<exists>err. get_exif_info env f = Inl err) \<longrightarrow>
      (\<exists>err. update_meta_data env c files = Inl err)" by (rule impI)
  from b have b': "files = pre @ f # post \<and> (\<forall>g\<in>set pre. \<exists>e. get_exif_info env g = Inr e)
        \<and> get_exif_info env f = Inl err \<longrightarrow>
      update_meta_data env c files = Inl err
      \<and> (\<forall>c1 dirs c2. update_modified_folders env c = (c1, dirs)
            \<and> update_modified_files env c1 dirs = (c2, Inr files) \<longrightarrow>
          update_cache env c = (c2, Inl err) \<and> t_meta (db c2) = t_meta (db c))" by (rule impI)
  from a' b' c d show ?thesis by (intro conjI)
qed

theorem extraction_failure_propagates_witness:
  "(\<exists>err. update_meta_data corrupt_env fresh_cache [''/p/a.jpg'', ''/p/b.jpg''] = Inl err)
   \<and> update_meta_data corrupt_env fresh_cache [''/p/a.jpg'', ''/p/b.jpg''] = Inl ValueError
   \<and> update_cache corrupt_env fresh_cache
       = (fresh_cache\<lparr>db := \<lparr>t_folder = [\<lparr>folder_id = 1, folder_name = ''/p'', folder_last_modified = 100\<rparr>],
            t_file = [\<lparr>file_id = 1, file_folder_id = 1, basename = ''a'', extension = ''jpg'', file_last_modified = 100\<rparr>,
                      \<lparr>file_id = 2, file_folder_id = 1, basename = ''b'', extension = ''jpg'', file_last_modified = 100\<rparr>],
            t_meta = [], t_location = []\<rparr>, first_run := False\<rparr>,
          Inl ValueError)
   \<and> t_meta (db (fst (update_cache corrupt_env fresh_cache))) = t_meta (db fresh_cache)
   \<and> get_exif_info corrupt_env ''/p/b.jpg'' = Inl ValueError"
proof -
  let ?c1 = "fresh_cache\<lparr>db := empty_store\<lparr>t_folder := [\<lparr>folder_id = 1, folder_name = ''/p'', folder_last_modified = 100\<rparr>]\<rparr>,
                   first_run := False\<rparr>"
  let ?c2 = "fresh_cache\<lparr>db := \<lparr>t_folder = [\<lparr>folder_id = 1, folder_name = ''/p'', folder_last_modified = 100\<rparr>],
            t_file = [\<lparr>file_id = 1, file_folder_id = 1, basename = ''a'', extension = ''jpg'', file_last_modified = 100\<rparr>,
                      \<lparr>file_id = 2, file_folder_id = 1, basename = ''b'', extension = ''jpg'', file_last_modified = 100\<rparr>],
            t_meta = [], t_location = []\<rparr>, first_run := False\<rparr>"
  have h1: "\<exists>f\<in>set [''/p/a.jpg'', ''/p/b.jpg'']. \<exists>err. get_exif_info corrupt_env f = Inl err"
    using corrupt_bad by simp
  have h2: "[''/p/a.jpg'', ''/p/b.jpg''] = [''/p/a.jpg''] @ ''/p/b.jpg'' # []
            \<and> (\<forall>g\<in>set [''/p/a.jpg'']. \<exists>e. get_exif_info corrupt_env g = Inr e)
            \<and> get_exif_info corrupt_env ''/p/b.jpg'' = Inl ValueError"
    using corrupt_good corrupt_bad by simp
  have h2c: "update_modified_folders corrupt_env fresh_cache = (?c1, [''/p''])
            \<and> update_modified_files corrupt_env ?c1 [''/p''] = (?c2, Inr [''/p/a.jpg'', ''/p/b.jpg''])"
    using corrupt_folders corrupt_files by simp
  have h3: "update_cache corrupt_env fresh_cache
              = (fst (update_cache corrupt_env fresh_cache), Inl ValueError)"
    using corrupt_cycle by (cases "update_cache corrupt_env fresh_cache") simp
  have h4: "env_image_meta corrupt_env ''/p/b.jpg'' = Inr (dated_exifs ''not a date'')
            \<and> get_exif (dated_exifs ''not a date'') ''EXIF DateTimeOriginal'' = Some (SText ''not a date'')
            \<and> env_strptime corrupt_env ''not a date'' = None"
    by (simp add: corrupt_env_def dated_exifs_def)
  note t1 = extraction_failure_propagates[of "[''/p/a.jpg'', ''/p/b.jpg'']" corrupt_env fresh_cache
      "[''/p/a.jpg'']" "''/p/b.jpg''" "[]" ValueError]
  note t2 = extraction_failure_propagates[of "[''/p/a.jpg'']" corrupt_env fresh_cache
      "[]" "''/p/b.jpg''" "[]" ValueError
      "fst (update_cache corrupt_env fresh_cache)" "dated_exifs ''not a date''" "''not a date''"]
  have w1: "\<exists>err. update_meta_data corrupt_env fresh_cache [''/p/a.jpg'', ''/p/b.jpg''] = Inl err"
    by (rule t1[THEN conjunct1, THEN mp, OF h1])
  note r2 = t1[THEN conjunct2, THEN conjunct1, THEN mp, OF h2]
  have w2: "update_meta_data corrupt_env fresh_cache [''/p/a.jpg'', ''/p/b.jpg''] = Inl ValueError"
    by (rule r2[THEN conjunct1])
  have w2c: "update_cache corrupt_env fresh_cache = (?c2, Inl ValueError)"
    by (rule r2[THEN conjunct2, THEN spec, THEN spec, THEN spec, THEN mp, OF h2c, THEN conjunct1])
  have w3: "t_meta (db (fst (update_cache corrupt_env fresh_cache))) = t_meta (db fresh_cache)"
    by (rule t2[THEN conjunct2, THEN conjunct2, THEN conjunct1, THEN mp, OF h3])
  have w4: "get_exif_info corrupt_env ''/p/b.jpg'' = Inl ValueError"
    by (rule t2[THEN conjunct2, THEN conjunct2, THEN conjunct2, THEN mp, OF h4])
  from w1 w2 w2c w3 w4 show ?thesis by (intro conjI)
qed

text \<open>
  The claim as stated fails: of two modified files, the second with a capture timestamp that
  does not parse, the cycle ends in ValueError with both File rows written and no Meta row at
  all, not even that of the first file.
\<close>

theorem extraction_failure_aborts_batch_counterexample:
  "get_exif_info corrupt_env ''/p/a.jpg'' =
     Inr \<lparr>e_orientation = 1, e_width = 4000, e_height = 3000, e_f_number = None, e_make = None,
          e_model = None, e_exposure_time = None, e_iso = None, e_focal_length = None,
          e_rating = None, e_lens = None, e_exif_datetime = 1577934245,
          e_latitude = None, e_longitude = None\<rparr>
   \<and> get_exif_info corrupt_env ''/p/b.jpg'' = Inl ValueError
   \<and> snd (update_cache corrupt_env fresh_cache) = Inl ValueError
   \<and> map file_id (t_file (db (fst (update_cache corrupt_env fresh_cache)))) = [1, 2]
   \<and> t_meta (db (fst (update_cache corrupt_env fresh_cache))) = []"
  using corrupt_good corrupt_bad corrupt_cycle by simp

section \<open>Two cycles over an unchanged file system\<close>

lemma find_filter_single:
  "length (filter P xs) \<le> 1 \<Longrightarrow> (case find P xs of None \<Rightarrow> [] | Some d \<Rightarrow> [d]) = filter P xs"
  by (induction xs) (auto split: if_splits)

lemma find_filter_keep:
  "\<forall>r\<in>set rows. P r \<longrightarrow> Q r \<Longrightarrow> find P (filter Q rows) = find P rows"
  by (induction rows) auto

lemma folder_out_of_date_cong:
  "t_folder s = t_folder s' \<Longrightarrow> folder_out_of_date env s x = folder_out_of_date env s' x"
  by (simp add: folder_out_of_date_def select_folder_def)

lemma insert_or_ignore_folder_ids:
  assumes "distinct (map folder_id (t_folder s))"
  shows "distinct (map folder_id (t_folder (insert_or_ignore_folder x s)))"
proof -
  have "next_rowid (map folder_id (t_folder s)) \<notin> set (map folder_id (t_folder s))"
    using next_rowid_greater[of "next_rowid (map folder_id (t_folder s))" "map folder_id (t_folder s)"]
    by auto
  then show ?thesis
    using assms by (cases x) (auto simp: insert_or_ignore_folder_def)
qed

lemma fold_insert_or_ignore_folder_ids:
  "distinct (map folder_id (t_folder s)) \<Longrightarrow>
   distinct (map folder_id (t_folder (fold insert_or_ignore_folder xs s)))"
  by (induction xs arbitrary: s) (simp_all add: insert_or_ignore_folder_ids)

lemma update_folder_ids:
  "map folder_id (t_folder (update_folder x s)) = map folder_id (t_folder s)"
  by (cases x) (simp add: update_folder_def comp_def)

lemma fold_update_folder_ids:
  "map folder_id (t_folder (fold update_folder xs s)) = map folder_id (t_folder s)"
  by (induction xs arbitrary: s) (simp_all add: update_folder_ids)

lemma purge_keeps_present_folder:
  assumes pk: "distinct (map folder_id (t_folder s))" and ex: "env_exists env x"
  shows "select_folder (purge_files env (purge_folders env s)) x = select_folder s x"
proof -
  have keep: "\<forall>r\<in>set (t_folder s). folder_name r = x \<longrightarrow> folder_id r \<notin> missing_folder_ids env s"
  proof (intro ballI impI notI)
    fix r assume r: "r \<in> set (t_folder s)" "folder_name r = x"
      and "folder_id r \<in> missing_folder_ids env s"
    then obtain r' where r': "r' \<in> set (t_folder s)" "\<not> env_exists env (folder_name r')"
      "folder_id r' = folder_id r" by (auto simp: missing_folder_ids_def)
    from pk have "inj_on folder_id (set (t_folder s))" by (simp add: distinct_map)
    with r(1) r'(1,3) have "r' = r" by (auto dest: inj_onD)
    with r'(2) r(2) ex show False by simp
  qed
  show ?thesis
    unfolding select_folder_def purge_files_tables purge_folders_tables
    by (rule find_filter_keep[OF keep])
qed

lemma scan_brings_folders_up_to_date:
  assumes early: "first_run c \<longrightarrow>
      length (filter (folder_out_of_date env (db c)) (env_walk env (picture_dir c))) \<le> 1"
    and x: "x \<in> set (env_walk env (picture_dir c))"
  shows "\<not> folder_out_of_date env (db (fst (update_modified_folders env c))) x"
proof -
  let ?walk = "env_walk env (picture_dir c)"
  let ?tm = "\<lambda>d. py_int (env_mtime env d)"
  obtain ds where r: "update_modified_folders env c =
          (c\<lparr>db := fold update_folder (map (\<lambda>d. (?tm d, d)) ds)
                     (fold insert_or_ignore_folder (map (\<lambda>d. (?tm d, d)) ds) (db c)),
             first_run := (first_run c \<and> ds = [])\<rparr>, ds)"
    and later: "\<not> first_run c \<longrightarrow> ds = filter (folder_out_of_date env (db c)) ?walk"
    and first: "first_run c \<longrightarrow> ds = (case find (folder_out_of_date env (db c)) ?walk
                                    of None \<Rightarrow> [] | Some d \<Rightarrow> [d])"
    using update_modified_folders_result[of env c] by blast
  have ds: "ds = filter (folder_out_of_date env (db c)) ?walk"
  proof (cases "first_run c")
    case True
    with first early show ?thesis by (simp add: find_filter_single)
  next
    case False
    with later show ?thesis by simp
  qed
  let ?s = "fold update_folder (map (\<lambda>d. (?tm d, d)) ds)
              (fold insert_or_ignore_folder (map (\<lambda>d. (?tm d, d)) ds) (db c))"
  have st: "stored_mtime ?s x = (if x \<in> set ds then Some (of_int (?tm x)) else stored_mtime (db c) x)"
    by (rule stored_mtime_after_upsert)
  have "\<not> folder_out_of_date env ?s x"
  proof (cases "x \<in> set ds")
    case True
    then show ?thesis by (simp add: folder_out_of_date_stored st)
  next
    case False
    then have "\<not> folder_out_of_date env (db c) x" using ds x by simp
    then show ?thesis using False by (simp add: folder_out_of_date_stored st)
  qed
  then show ?thesis by (simp add: r)
qed

lemma update_modified_folders_keys:
  assumes "distinct (map folder_id (t_folder (db c)))"
  shows "distinct (map folder_id (t_folder (db (fst (update_modified_folders env c)))))"
    and "picture_dir (fst (update_modified_folders env c)) = picture_dir c"
proof -
  obtain ds where r: "update_modified_folders env c =
          (c\<lparr>db := fold update_folder (map (\<lambda>d. (py_int (env_mtime env d), d)) ds)
                     (fold insert_or_ignore_folder (map (\<lambda>d. (py_int (env_mtime env d), d)) ds) (db c)),
             first_run := (first_run c \<and> ds = [])\<rparr>, ds)"
    using update_modified_folders_result[of env c] by blast
  show "distinct (map folder_id (t_folder (db (fst (update_modified_folders env c)))))"
    using fold_insert_or_ignore_folder_ids[OF assms]
    by (simp add: r fold_update_folder_ids)
  show "picture_dir (fst (update_modified_folders env c)) = picture_dir c"
    by (simp add: r)
qed

text \<open>
  Claim C4, as the code has it. Two cycles over an unchanged file system leave the second
  one with nothing to do, provided the scan of the first one was not cut short: either the
  first-cycle early stop is no longer armed, or at most one folder was out of date, so that
  stopping after it skips nothing. The first cycle is one that completes, the walked
  directories exist, and folder ids are unique as the primary key makes them. Then the second
  cycle returns empty modified-folder and modified-file lists and the cache, with all four
  tables, is the one the first cycle left.
\<close>

theorem second_cycle_changes_nothing:
  assumes "distinct (map folder_id (t_folder (db c)))"
    and "\<forall>d\<in>set (env_walk env (picture_dir c)). env_exists env d"
    and "first_run c \<longrightarrow>
      length (filter (folder_out_of_date env (db c)) (env_walk env (picture_dir c))) \<le> 1"
    and "update_cache env c = (c1, Inr r)"
  shows "update_cache env c1 = (c1, Inr ([], []))"
proof -
  obtain ca ds where s1: "update_modified_folders env c = (ca, ds)" by fastforce
  obtain cb rb where s2: "update_modified_files env ca ds = (cb, rb)" by fastforce
  from assms(4) s1 s2 obtain files where rb: "rb = Inr files"
    by (auto simp: update_cache_def split: sum.splits)
  from assms(4) s1 s2 rb obtain cc where s3: "update_meta_data env cb files = Inr cc"
    and c1: "c1 = purge_missing_files_and_folders env cc"
    by (auto simp: update_cache_def split: sum.splits)
  have ca: "ca = fst (update_modified_folders env c)" using s1 by simp
  have cb: "cb = fst (update_modified_files env ca ds)" using s2 by simp
  have tf: "t_folder (db cc) = t_folder (db ca)"
    using update_meta_data_frame(1)[OF s3] update_modified_files_frame(1)[of env ca ds] cb by simp
  have pd: "picture_dir cc = picture_dir c"
    using update_meta_data_frame(5)[OF s3] update_modified_files_cache[OF s2]
      update_modified_folders_keys(2)[OF assms(1), of env] ca by simp
  have pk: "distinct (map folder_id (t_folder (db cc)))"
    using update_modified_folders_keys(1)[OF assms(1), of env] ca tf by simp
  have pd1: "picture_dir c1 = picture_dir c" using pd by (simp add: c1 purge_two_stages)
  have idle: "\<forall>dir\<in>set (env_walk env (picture_dir c1)). \<not> folder_out_of_date env (db c1) dir"
  proof
    fix x assume "x \<in> set (env_walk env (picture_dir c1))"
    then have x: "x \<in> set (env_walk env (picture_dir c))" using pd1 by simp
    then have "\<not> folder_out_of_date env (db ca) x"
      using scan_brings_folders_up_to_date[OF assms(3)] ca by simp
    then have "\<not> folder_out_of_date env (db cc) x"
      using folder_out_of_date_cong[OF tf] by simp
    moreover have "select_folder (db c1) x = select_folder (db cc) x"
      using purge_keeps_present_folder[OF pk, of env x] assms(2) x
      by (simp add: c1 purge_two_stages)
    ultimately show "\<not> folder_out_of_date env (db c1) x"
      by (simp add: folder_out_of_date_def)
  qed
  have "purge_missing_files_and_folders env c1 = c1"
    unfolding c1 by (rule purge_idem)
  with idle_cycle_is_purge[OF idle] show ?thesis by simp
qed

lemma gps_first_cycle:
  "update_cache gps_env fresh_cache =
     (fresh_cache\<lparr>db := \<lparr>t_folder = [\<lparr>folder_id = 1, folder_name = ''/p'', folder_last_modified = 100\<rparr>],
        t_file = [\<lparr>file_id = 1, file_folder_id = 1, basename = ''a'', extension = ''jpg'',
                   file_last_modified = 100\<rparr>],
        t_meta = [meta_of_dict 1
          \<lparr>e_orientation = 1, e_width = 4000, e_height = 3000, e_f_number = None, e_make = None,
           e_model = None, e_exposure_time = None, e_iso = None, e_focal_length = None,
           e_rating = None, e_lens = None, e_exif_datetime = 100,
           e_latitude = Some (515012 / 10000), e_longitude = Some (- (1278 / 10000))\<rparr>],
        t_location = []\<rparr>, first_run := False\<rparr>,
      Inr ([''/p''], [''/p/a.jpg'']))"
proof -
  let ?s1 = "empty_store\<lparr>t_folder := [\<lparr>folder_id = 1, folder_name = ''/p'', folder_last_modified = 100\<rparr>]\<rparr>"
  let ?s2 = "\<lparr>t_folder = [\<lparr>folder_id = 1, folder_name = ''/p'', folder_last_modified = 100\<rparr>],
        t_file = [\<lparr>file_id = 1, file_folder_id = 1, basename = ''a'', extension = ''jpg'',
                   file_last_modified = 100\<rparr>], t_meta = [], t_location = []\<rparr>"
  have a: "update_modified_folders gps_env fresh_cache =
     (fresh_cache\<lparr>db := ?s1, first_run := False\<rparr>, [''/p''])"
    by (simp add: update_modified_folders_def gps_env_def fresh_cache_def empty_store_def
        folder_out_of_date_def select_folder_def py_int_def insert_or_ignore_folder_def
        update_folder_def next_rowid_def)
  have b: "file_entries gps_env ?s1 [''/p''] = [(''/p/a.jpg'', ''/p'', ''a'', ''jpg'', 100)]"
    by (simp add: file_entries_def file_entry_def gps_env_def empty_store_def splitext_def
        lower_def lower_char_def EXTENSIONS_def startswith_def endswith_def path_join_def
        select_fname_def all_data_def lstrip_def)
  have c: "update_modified_files gps_env (fresh_cache\<lparr>db := ?s1, first_run := False\<rparr>) [''/p'']
           = (fresh_cache\<lparr>db := ?s2, first_run := False\<rparr>, Inr [''/p/a.jpg''])"
    by (simp add: update_modified_files_def b Let_def fresh_cache_def)
       (simp add: insert_or_replace_file_def select_folder_def empty_store_def next_rowid_def)
  have ad: "all_data ?s2 = [\<lparr>fname = ''/p/a.jpg'', last_modified = 100, v_meta = None, v_location = None\<rparr>]"
    by (simp add: all_data_def left_join_def mk_view_row_def)
  have d: "update_meta_data gps_env (fresh_cache\<lparr>db := ?s2, first_run := False\<rparr>) [''/p/a.jpg'']
           = Inr (fresh_cache\<lparr>db := ?s2\<lparr>t_meta := [meta_of_dict 1
          \<lparr>e_orientation = 1, e_width = 4000, e_height = 3000, e_f_number = None, e_make = None,
           e_model = None, e_exposure_time = None, e_iso = None, e_focal_length = None,
           e_rating = None, e_lens = None, e_exif_datetime = 100,
           e_latitude = Some (515012 / 10000), e_longitude = Some (- (1278 / 10000))\<rparr>]\<rparr>,
              first_run := False\<rparr>)"
    by (simp add: update_meta_data_def get_exif_info_gps_env insert_or_replace_meta_def
          select_fname_def ad v_file_id_def next_rowid_def fresh_cache_def)
  have e: "all_data (?s2\<lparr>t_meta := [meta_of_dict 1 x]\<rparr>)
           = [\<lparr>fname = ''/p/a.jpg'', last_modified = 100, v_meta = Some (meta_of_dict 1 x),
               v_location = None\<rparr>]" for x
    by (simp add: all_data_def left_join_def mk_view_row_def meta_of_dict_def location_on_def)
  show ?thesis
    by (simp add: update_cache_def a c d purge_missing_files_and_folders_def Let_def e)
       (simp add: gps_env_def fresh_cache_def)
qed

theorem second_cycle_changes_nothing_witness:
  "snd (update_cache gps_env fresh_cache) = Inr ([''/p''], [''/p/a.jpg''])
   \<and> update_cache gps_env (fst (update_cache gps_env fresh_cache))
       = (fst (update_cache gps_env fresh_cache), Inr ([], []))"
proof -
  have h1: "distinct (map folder_id (t_folder (db fresh_cache)))"
    by (simp add: fresh_cache_def empty_store_def)
  have h2: "\<forall>d\<in>set (env_walk gps_env (picture_dir fresh_cache)). env_exists gps_env d"
    by (simp add: gps_env_def)
  have h3: "first_run fresh_cache \<longrightarrow>
      length (filter (folder_out_of_date gps_env (db fresh_cache))
                (env_walk gps_env (picture_dir fresh_cache))) \<le> 1"
    by (simp add: gps_env_def)
  have h4: "update_cache gps_env fresh_cache
            = (fst (update_cache gps_env fresh_cache), Inr ([''/p''], [''/p/a.jpg'']))"
    by (simp add: gps_first_cycle)
  have w1: "snd (update_cache gps_env fresh_cache) = Inr ([''/p''], [''/p/a.jpg''])"
    by (simp add: gps_first_cycle)
  from w1 second_cycle_changes_nothing[OF h1 h2 h3 h4] show ?thesis by (intro conjI)
qed

lemma cold_start_cycles:
  "snd (update_cache (two_folder_env 100) fresh_cache) = Inr ([''/p''], [])
   \<and> snd (update_cache (two_folder_env 100) (fst (update_cache (two_folder_env 100) fresh_cache)))
       = Inr ([''/p/a''], [])"
proof -
  let ?s1 = "empty_store\<lparr>t_folder := [\<lparr>folder_id = 1, folder_name = ''/p'', folder_last_modified = 100\<rparr>]\<rparr>"
  have a: "update_modified_folders (two_folder_env 100) fresh_cache =
     (fresh_cache\<lparr>db := ?s1, first_run := False\<rparr>, [''/p''])"
    by (simp add: update_modified_folders_def two_folder_env_def fresh_cache_def empty_store_def
        folder_out_of_date_def select_folder_def py_int_def insert_or_ignore_folder_def
        update_folder_def next_rowid_def)
  have one: "update_cache (two_folder_env 100) fresh_cache
             = (fresh_cache\<lparr>db := ?s1, first_run := False\<rparr>, Inr ([''/p''], []))"
    by (simp add: update_cache_def a update_modified_files_def file_entries_def
          update_meta_data_def)
       (simp add: purge_missing_files_and_folders_def Let_def two_folder_env_def
          fresh_cache_def empty_store_def all_data_def)
  have b: "snd (update_modified_folders (two_folder_env 100)
                  (fresh_cache\<lparr>db := ?s1, first_run := False\<rparr>)) = [''/p/a'']"
    by (simp add: update_modified_folders_def two_folder_env_def fresh_cache_def empty_store_def
        folder_out_of_date_def select_folder_def py_int_def)
  have two: "snd (update_cache (two_folder_env 100) (fresh_cache\<lparr>db := ?s1, first_run := False\<rparr>))
             = Inr ([''/p/a''], [])"
    using b
    by (cases "update_modified_folders (two_folder_env 100)
                  (fresh_cache\<lparr>db := ?s1, first_run := False\<rparr>)")
       (simp add: update_cache_def update_modified_files_def file_entries_def
          update_meta_data_def two_folder_env_def)
  from one two show ?thesis by simp
qed

text \<open>
  The claim as stated fails on a cold start: with two folders on disk and an empty store, the
  first cycle stops after \<open>/p\<close>, and the second cycle, over the same file system, still finds
  \<open>/p/a\<close> modified.
\<close>

theorem second_cycle_after_early_stop_counterexample:
  "first_run fresh_cache
   \<and> snd (update_cache (two_folder_env 100) fresh_cache) = Inr ([''/p''], [])
   \<and> snd (update_cache (two_folder_env 100) (fst (update_cache (two_folder_env 100) fresh_cache)))
       = Inr ([''/p/a''], [])"
  using cold_start_cycles by (simp add: fresh_cache_def)

section \<open>Re-scanning a recorded file\<close>

lemma trunc_entries:
  "file_entries trunc_env trunc_store [''/p''] = [(''/p/a.jpg'', ''/p'', ''a'', ''jpg'', 1007 / 10)]"
  by (simp add: file_entries_def file_entry_def trunc_env_def splitext_def
        lower_def lower_char_def EXTENSIONS_def startswith_def endswith_def path_join_def
        trunc_select_fname[unfolded path_join_def] lstrip_def)

lemma trunc_rescan:
  "update_modified_files trunc_env trunc_cache [''/p''] =
     (trunc_cache\<lparr>db := trunc_store\<lparr>t_file := [\<lparr>file_id = 2, file_folder_id = 1, basename = ''a'',
            extension = ''jpg'', file_last_modified = 1007 / 10\<rparr>]\<rparr>\<rparr>, Inr [''/p/a.jpg''])"
proof -
  have "insert_or_replace_file (''/p'', ''a'', ''jpg'', 1007 / 10) trunc_store
            = Inr (trunc_store\<lparr>t_file := [\<lparr>file_id = 2, file_folder_id = 1, basename = ''a'',
            extension = ''jpg'', file_last_modified = 1007 / 10\<rparr>]\<rparr>)"
    by (simp add: insert_or_replace_file_def select_folder_def trunc_store_def next_rowid_def)
  then show ?thesis
    by (simp add: update_modified_files_def Let_def trunc_cache_def trunc_entries)
qed

text \<open>
  Claim C5, as the code has it. Re-scanning a recorded file writes its row with
  \<open>INSERT OR REPLACE\<close>: the (folder, base name, extension) triple stays unique and exactly one
  row carries it, but that row is a new one. It holds the new modification time under a fresh
  id, greater than every id the File table held before; the row it replaces is deleted, not
  updated in place.
\<close>

theorem rescan_replaces_file_row:
  "(distinct (map file_key (t_file (db c)))
      \<and> update_modified_files env c dirs = (c', Inr out)
      \<and> (full_file, dir, base, ext, tm) \<in> set (file_entries env (db c) dirs)
      \<and> select_folder (db c) dir = Some d \<longrightarrow>
    distinct (map file_key (t_file (db c')))
    \<and> (\<exists>row. filter (\<lambda>f. file_key f = (folder_id d, base, ext)) (t_file (db c')) = [row]
          \<and> (\<forall>old\<in>set (t_file (db c)). file_id old < file_id row)))
   \<and> (insert_or_replace_file (dir, base, ext, tm) s = Inr s' \<and> select_folder s dir = Some d \<longrightarrow>
        filter (\<lambda>f. file_key f = (folder_id d, base, ext)) (t_file s')
          = [\<lparr>file_id = next_rowid (map file_id (t_file s)), file_folder_id = folder_id d,
               basename = base, extension = ext, file_last_modified = tm\<rparr>])"
proof (intro conjI impI)
  assume a: "distinct (map file_key (t_file (db c)))
      \<and> update_modified_files env c dirs = (c', Inr out)
      \<and> (full_file, dir, base, ext, tm) \<in> set (file_entries env (db c) dirs)
      \<and> select_folder (db c) dir = Some d"
  let ?data = "map snd (file_entries env (db c) dirs)"
  from a have mem: "(dir, base, ext, tm) \<in> set ?data" by force
  then have ne: "?data \<noteq> []" by auto
  obtain s1 eo where ex: "executemany insert_or_replace_file ?data (db c) = (s1, eo)"
    by fastforce
  from a ne ex have eo: "eo = None" and c': "db c' = s1"
    by (auto simp: update_modified_files_def Let_def split: option.splits)
  from ex eo have run: "executemany insert_or_replace_file ?data (db c) = (db c', None)"
    using c' by simp
  show "distinct (map file_key (t_file (db c')))"
    using executemany_file_distinct[OF run] a by blast
  have "tuple_key (db c) (dir, base, ext, tm) = Some (folder_id d, base, ext)"
    using a by (simp add: tuple_key_def)
  then have "Some (folder_id d, base, ext) \<in> tuple_key (db c) ` set ?data"
    using mem by force
  from executemany_file_fresh_row[OF run this order_refl]
  obtain row where row: "filter (\<lambda>f. file_key f = (folder_id d, base, ext)) (t_file (db c')) = [row]"
    "next_rowid (map file_id (t_file (db c))) \<le> file_id row" by blast
  have "\<forall>old\<in>set (t_file (db c)). file_id old < file_id row"
  proof
    fix old assume "old \<in> set (t_file (db c))"
    then have "file_id old < next_rowid (map file_id (t_file (db c)))"
      by (intro next_rowid_greater) simp
    with row(2) show "file_id old < file_id row" by simp
  qed
  with row(1) show "\<exists>row. filter (\<lambda>f. file_key f = (folder_id d, base, ext)) (t_file (db c')) = [row]
          \<and> (\<forall>old\<in>set (t_file (db c)). file_id old < file_id row)" by blast
next
  assume b: "insert_or_replace_file (dir, base, ext, tm) s = Inr s' \<and> select_folder s dir = Some d"
  from insert_or_replace_file_rows[of dir base ext tm s s'] b
  have t: "t_file s' = filter (\<lambda>f. file_key f \<noteq> (folder_id d, base, ext)) (t_file s)
               @ [\<lparr>file_id = next_rowid (map file_id (t_file s)), file_folder_id = folder_id d,
                   basename = base, extension = ext, file_last_modified = tm\<rparr>]"
    by auto
  show "filter (\<lambda>f. file_key f = (folder_id d, base, ext)) (t_file s')
          = [\<lparr>file_id = next_rowid (map file_id (t_file s)), file_folder_id = folder_id d,
               basename = base, extension = ext, file_last_modified = tm\<rparr>]"
    unfolding t by (auto simp: file_key_def filter_empty_conv)
qed

theorem rescan_replaces_file_row_witness:
  "distinct (map file_key (t_file (db trunc_cache)))
   \<and> (\<exists>row. filter (\<lambda>f. file_key f = (1, ''a'', ''jpg''))
               (t_file (db (fst (update_modified_files trunc_env trunc_cache [''/p''])))) = [row]
          \<and> (\<forall>old\<in>set (t_file (db trunc_cache)). file_id old < file_id row))
   \<and> filter (\<lambda>f. file_key f = (1, ''a'', ''jpg''))
        (t_file (trunc_store\<lparr>t_file := [\<lparr>file_id = 2, file_folder_id = 1, basename = ''a'',
            extension = ''jpg'', file_last_modified = 1007 / 10\<rparr>]\<rparr>))
      = [\<lparr>file_id = 2, file_folder_id = 1, basename = ''a'', extension = ''jpg'',
          file_last_modified = 1007 / 10\<rparr>]"
proof -
  let ?d = "\<lparr>folder_id = 1, folder_name = ''/p'', folder_last_modified = 100\<rparr>"
  let ?c' = "fst (update_modified_files trunc_env trunc_cache [''/p''])"
  let ?s' = "trunc_store\<lparr>t_file := [\<lparr>file_id = 2, file_folder_id = 1, basename = ''a'',
            extension = ''jpg'', file_last_modified = 1007 / 10\<rparr>]\<rparr>"
  note t = rescan_replaces_file_row[of trunc_cache trunc_env "[''/p'']" ?c' "[''/p/a.jpg'']"
      "''/p/a.jpg''" "''/p''" "''a''" "''jpg''" "1007 / 10" ?d trunc_store ?s']
  have d: "distinct (map file_key (t_file (db trunc_cache)))"
    by (simp add: trunc_cache_def trunc_store_def)
  have sel: "select_folder trunc_store ''/p'' = Some ?d"
    by (simp add: select_folder_def trunc_store_def)
  have h1: "distinct (map file_key (t_file (db trunc_cache)))
      \<and> update_modified_files trunc_env trunc_cache [''/p''] = (?c', Inr [''/p/a.jpg''])
      \<and> (''/p/a.jpg'', ''/p'', ''a'', ''jpg'', 1007 / 10)
           \<in> set (file_entries trunc_env (db trunc_cache) [''/p''])
      \<and> select_folder (db trunc_cache) ''/p'' = Some ?d"
    using d sel by (simp add: trunc_rescan) (simp add: trunc_cache_def trunc_entries)
  have h2: "insert_or_replace_file (''/p'', ''a'', ''jpg'', 1007 / 10) trunc_store = Inr ?s'
            \<and> select_folder trunc_store ''/p'' = Some ?d"
    using sel by (simp add: insert_or_replace_file_def trunc_store_def next_rowid_def)
  have n: "next_rowid (map file_id (t_file trunc_store)) = 2"
    by (simp add: trunc_store_def next_rowid_def)
  from t[THEN conjunct1, THEN mp, OF h1] t[THEN conjunct2, THEN mp, OF h2] d n
  show ?thesis by simp
qed

text \<open>
  The claim as stated fails: the file \<open>/p/a.jpg\<close> is recorded under id 1 with modification
  time 100.2; after its modification time advances to 100.7 the re-scan leaves one row for
  it, with id 2.
\<close>

theorem rescan_changes_file_id_counterexample:
  "t_file (db trunc_cache)
     = [\<lparr>file_id = 1, file_folder_id = 1, basename = ''a'', extension = ''jpg'',
          file_last_modified = 1002 / 10\<rparr>]
   \<and> env_mtime trunc_env ''/p/a.jpg'' = 1007 / 10
   \<and> update_modified_files trunc_env trunc_cache [''/p''] =
       (trunc_cache\<lparr>db := trunc_store\<lparr>t_file := [\<lparr>file_id = 2, file_folder_id = 1, basename = ''a'',
            extension = ''jpg'', file_last_modified = 1007 / 10\<rparr>]\<rparr>\<rparr>, Inr [''/p/a.jpg''])"
  using trunc_rescan by (simp add: trunc_cache_def trunc_store_def trunc_env_def)

section \<open>Geocoding on read\<close>

lemma select_after_geocode:
  assumes sel: "select_file_id s i = Some row"
    and la: "v_latitude row = Some lat" and lo: "v_longitude row = Some lon"
  shows "select_file_id (insert_or_replace_location lat lon descr s) i
         = Some (row\<lparr>v_location := Some descr\<rparr>)"
proof -
  let ?Q = "\<lambda>(f, d, mo). map_option m_file_id mo = Some i"
  from sel obtain g where g: "find ?Q (view_groups s) = Some g" "row = hd (group_rows s g)"
    by (auto simp: select_file_id_groups)
  obtain f d mo where fdm: "g = (f, d, mo)" by (cases g)
  have "row \<in> set (group_rows s (f, d, mo))"
    using g(2) fdm group_rows_not_empty[of s g] by simp
  then obtain l where row: "row = mk_view_row f d mo l"
    by (auto simp: group_rows_def)
  from la lo row obtain m where m: "mo = Some m" "m_latitude m = Some lat" "m_longitude m = Some lon"
    by (cases mo) (auto simp: v_latitude_def v_longitude_def mk_view_row_def)
  let ?s' = "insert_or_replace_location lat lon descr s"
  have "select_file_id ?s' i = Some (hd (group_rows ?s' (f, d, Some m)))"
    using g(1) fdm m(1) by (simp add: select_file_id_groups)
  also have "hd (group_rows ?s' (f, d, Some m)) = row\<lparr>v_location := Some descr\<rparr>"
    using left_join_new_location[OF m(2,3), of descr s]
    by (simp add: group_rows_def row m(1) mk_view_row_def)
  finally show ?thesis .
qed

lemma get_file_info_resolves:
  assumes "select_file_id (db c) i = Some row"
    and "v_latitude row = Some lat" and "v_longitude row = Some lon" and "v_location row = None"
    and "geo_reverse c (geo_calls c) lat lon \<noteq> []"
  shows "get_file_info c i =
           (c\<lparr>geo_calls := Suc (geo_calls c),
              db := insert_or_replace_location lat lon (geo_reverse c (geo_calls c) lat lon) (db c)\<rparr>,
            Inr (Some (row\<lparr>v_location := Some (geo_reverse c (geo_calls c) lat lon)\<rparr>)))"
  using assms select_after_geocode[OF assms(1,2,3), of "geo_reverse c (geo_calls c) lat lon"]
  by (simp add: get_file_info_def get_geo_location_def Let_def)

lemma get_file_info_no_answer:
  assumes "select_file_id (db c) i = Some row"
    and "v_latitude row = Some lat" and "v_longitude row = Some lon" and "v_location row = None"
    and "geo_reverse c (geo_calls c) lat lon = []"
  shows "get_file_info c i = (c\<lparr>geo_calls := Suc (geo_calls c)\<rparr>, Inr (Some row))"
  using assms by (simp add: get_file_info_def get_geo_location_def Let_def)

lemma get_file_info_invokes:
  assumes "select_file_id (db c) i = Some row"
    and "v_latitude row = Some lat" and "v_longitude row = Some lon" and "v_location row = None"
  shows "geo_calls (fst (get_file_info c i)) = Suc (geo_calls c)"
  using assms by (simp add: get_file_info_def get_geo_location_def Let_def)

lemma get_file_info_cached:
  assumes "select_file_id (db c) i = Some row" and "v_location row = Some descr"
  shows "get_file_info c i = (c, Inr (Some row))"
  using assms by (simp add: get_file_info_def split: option.splits)

lemma get_file_info_frame:
  "geo_reverse (fst (get_file_info c i)) = geo_reverse c"
  by (simp add: get_file_info_def get_geo_location_def Let_def
        split: option.splits prod.splits bool.splits)

lemma repeated_no_answer:
  assumes "select_file_id (db c) i = Some row"
    and "v_latitude row = Some lat" and "v_longitude row = Some lon" and "v_location row = None"
    and "\<forall>n. geo_reverse c n lat lon = []"
  shows "db (((\<lambda>c. fst (get_file_info c i)) ^^ k) c) = db c
       \<and> geo_reverse (((\<lambda>c. fst (get_file_info c i)) ^^ k) c) = geo_reverse c
       \<and> geo_calls (((\<lambda>c. fst (get_file_info c i)) ^^ k) c) = geo_calls c + k"
proof (induction k)
  case 0
  then show ?case by simp
next
  case (Suc k)
  let ?ck = "((\<lambda>c. fst (get_file_info c i)) ^^ k) c"
  have sel: "select_file_id (db ?ck) i = Some row" using Suc assms(1) by simp
  have "geo_reverse ?ck (geo_calls ?ck) lat lon = []" using Suc assms(5) by simp
  from get_file_info_no_answer[OF sel assms(2,3,4) this] Suc
  show ?case by simp
qed

lemma same_coordinates_same_location:
  assumes "select_file_id s i = Some row" and "select_file_id s j = Some rowj"
    and "v_latitude row = Some lat" and "v_longitude row = Some lon"
    and "v_latitude rowj = Some lat" and "v_longitude rowj = Some lon"
  shows "v_location rowj = v_location row"
proof -
  have shape: "\<exists>m. v_meta r = Some m \<and> m_latitude m = Some lat \<and> m_longitude m = Some lon
                 \<and> v_location r = Option.bind (hd (left_join (location_on (Some m)) (t_location s))) loc_description"
    if sel: "select_file_id s k = Some r" and la: "v_latitude r = Some lat" and lo: "v_longitude r = Some lon"
    for k r
  proof -
    from sel obtain g where g: "r = hd (group_rows s g)"
      by (auto simp: select_file_id_groups)
    obtain f d mo where fdm: "g = (f, d, mo)" by (cases g)
    have r: "r = mk_view_row f d mo (hd (left_join (location_on mo) (t_location s)))"
      using g fdm left_join_not_empty[of "location_on mo" "t_location s"]
      by (simp add: group_rows_def hd_map)
    from la lo r obtain m where m: "mo = Some m" "m_latitude m = Some lat" "m_longitude m = Some lon"
      by (cases mo) (auto simp: v_latitude_def v_longitude_def mk_view_row_def)
    show ?thesis using r m by (simp add: mk_view_row_def)
  qed
  from shape[OF assms(1,3,4)] obtain m where
    m: "m_latitude m = Some lat" "m_longitude m = Some lon"
       "v_location row = Option.bind (hd (left_join (location_on (Some m)) (t_location s))) loc_description"
    by auto
  from shape[OF assms(2,5,6)] obtain m' where
    m': "m_latitude m' = Some lat" "m_longitude m' = Some lon"
       "v_location rowj = Option.bind (hd (left_join (location_on (Some m')) (t_location s))) loc_description"
    by auto
  have "location_on (Some m') = location_on (Some m)"
    using m(1,2) m'(1,2) by (simp add: location_on_def fun_eq_iff)
  then show ?thesis using m(3) m'(3) by simp
qed

text \<open>Accesses through any records of a coordinate pair whose description is cached.\<close>

lemma accesses_after_resolution:
  assumes "\<forall>j\<in>set js. \<exists>rowj. select_file_id (db c) j = Some rowj \<and> v_location rowj \<noteq> None"
  shows "fold (\<lambda>j c. fst (get_file_info c j)) js c = c"
  using assms
proof (induction js)
  case Nil
  then show ?case by simp
next
  case (Cons j js)
  then obtain rowj descr where "select_file_id (db c) j = Some rowj" "v_location rowj = Some descr"
    by auto
  then have "get_file_info c j = (c, Inr (Some rowj))" by (rule get_file_info_cached)
  then show ?case using Cons by simp
qed

lemma accesses_without_answer:
  assumes "\<forall>j\<in>set js. \<exists>rowj. select_file_id (db c) j = Some rowj \<and> v_latitude rowj = Some lat
             \<and> v_longitude rowj = Some lon \<and> v_location rowj = None"
    and "\<forall>n. geo_reverse c n lat lon = []"
  shows "db (fold (\<lambda>j c. fst (get_file_info c j)) js c) = db c
       \<and> geo_reverse (fold (\<lambda>j c. fst (get_file_info c j)) js c) = geo_reverse c
       \<and> geo_calls (fold (\<lambda>j c. fst (get_file_info c j)) js c) = geo_calls c + length js"
  using assms
proof (induction js arbitrary: c)
  case Nil
  then show ?case by simp
next
  case (Cons j js)
  from Cons.prems(1) obtain rowj where r: "select_file_id (db c) j = Some rowj"
    "v_latitude rowj = Some lat" "v_longitude rowj = Some lon" "v_location rowj = None"
    by auto
  have e: "geo_reverse c (geo_calls c) lat lon = []" using Cons.prems(2) by simp
  let ?c1 = "c\<lparr>geo_calls := Suc (geo_calls c)\<rparr>"
  have step: "get_file_info c j = (?c1, Inr (Some rowj))"
    by (rule get_file_info_no_answer[OF r e])
  have p1: "\<forall>j\<in>set js. \<exists>rowj. select_file_id (db ?c1) j = Some rowj \<and> v_latitude rowj = Some lat
             \<and> v_longitude rowj = Some lon \<and> v_location rowj = None"
    using Cons.prems(1) by simp
  have p2: "\<forall>n. geo_reverse ?c1 n lat lon = []" using Cons.prems(2) by simp
  from Cons.IH[OF p1 p2] step show ?case by simp
qed

text \<open>
  Claim C6. For a record with coordinates and no cached description: a non-empty answer of
  the geocoder is written into Location and the record returned is the re-read one, carrying
  the description. From then on \<open>get_file_info\<close> for this record, and for every other record
  whose rounded (lat, lon) pair is the same, returns the cached description and leaves the
  cache object as it is, so that after any sequence of such accesses the geocoder has been
  invoked exactly once. An empty answer is not cached: the store is unchanged, the next access
  through any record of that coordinate pair invokes the geocoder again, and as long as the
  answers stay empty every access of a sequence of them invokes it once more.
\<close>

theorem geocode_cached_on_success:
  "(select_file_id (db c) i = Some row \<and> v_latitude row = Some lat \<and> v_longitude row = Some lon
      \<and> v_location row = None \<and> geo_reverse c (geo_calls c) lat lon \<noteq> [] \<longrightarrow>
    get_file_info c i =
      (c\<lparr>geo_calls := Suc (geo_calls c),
         db := insert_or_replace_location lat lon (geo_reverse c (geo_calls c) lat lon) (db c)\<rparr>,
       Inr (Some (row\<lparr>v_location := Some (geo_reverse c (geo_calls c) lat lon)\<rparr>)))
    \<and> get_file_info (fst (get_file_info c i)) i =
      (fst (get_file_info c i),
       Inr (Some (row\<lparr>v_location := Some (geo_reverse c (geo_calls c) lat lon)\<rparr>)))
    \<and> geo_calls (fst (get_file_info (fst (get_file_info c i)) i)) = Suc (geo_calls c)
    \<and> (\<forall>j rowj. select_file_id (db c) j = Some rowj
          \<and> v_latitude rowj = Some lat \<and> v_longitude rowj = Some lon \<longrightarrow>
        get_file_info (fst (get_file_info c i)) j =
          (fst (get_file_info c i),
           Inr (Some (rowj\<lparr>v_location := Some (geo_reverse c (geo_calls c) lat lon)\<rparr>))))
    \<and> (\<forall>js. (\<forall>j\<in>set js. \<exists>rowj. select_file_id (db c) j = Some rowj
                \<and> v_latitude rowj = Some lat \<and> v_longitude rowj = Some lon) \<longrightarrow>
        geo_calls (fold (\<lambda>j c'. fst (get_file_info c' j)) js (fst (get_file_info c i)))
          = Suc (geo_calls c)))
   \<and> (select_file_id (db c) i = Some row \<and> v_latitude row = Some lat \<and> v_longitude row = Some lon
      \<and> v_location row = None \<and> geo_reverse c (geo_calls c) lat lon = [] \<longrightarrow>
    get_file_info c i = (c\<lparr>geo_calls := Suc (geo_calls c)\<rparr>, Inr (Some row))
    \<and> (\<forall>j rowj. select_file_id (db c) j = Some rowj
          \<and> v_latitude rowj = Some lat \<and> v_longitude rowj = Some lon \<longrightarrow>
        geo_calls (fst (get_file_info (fst (get_file_info c i)) j)) = Suc (Suc (geo_calls c))))
   \<and> (select_file_id (db c) i = Some row \<and> v_latitude row = Some lat \<and> v_longitude row = Some lon
      \<and> v_location row = None \<and> (\<forall>n. geo_reverse c n lat lon = []) \<longrightarrow>
    db (((\<lambda>c. fst (get_file_info c i)) ^^ k) c) = db c
    \<and> geo_calls (((\<lambda>c. fst (get_file_info c i)) ^^ k) c) = geo_calls c + k
    \<and> (\<forall>js. (\<forall>j\<in>set js. \<exists>rowj. select_file_id (db c) j = Some rowj
                \<and> v_latitude rowj = Some lat \<and> v_longitude rowj = Some lon) \<longrightarrow>
        db (fold (\<lambda>j c'. fst (get_file_info c' j)) js c) = db c
        \<and> geo_calls (fold (\<lambda>j c'. fst (get_file_info c' j)) js c) = geo_calls c + length js))"
proof (intro conjI impI allI)
  assume a: "select_file_id (db c) i = Some row \<and> v_latitude row = Some lat \<and> v_longitude row = Some lon
      \<and> v_location row = None \<and> geo_reverse c (geo_calls c) lat lon \<noteq> []"
  let ?descr = "geo_reverse c (geo_calls c) lat lon"
  let ?c1 = "c\<lparr>geo_calls := Suc (geo_calls c), db := insert_or_replace_location lat lon ?descr (db c)\<rparr>"
  let ?row1 = "row\<lparr>v_location := Some ?descr\<rparr>"
  from a have first: "get_file_info c i = (?c1, Inr (Some ?row1))"
    using get_file_info_resolves[of c i row lat lon] by simp
  then show "get_file_info c i = (?c1, Inr (Some ?row1))" .
  have "select_file_id (db ?c1) i = Some ?row1"
    using a select_after_geocode[of "db c" i row lat lon ?descr] by simp
  then have second: "get_file_info ?c1 i = (?c1, Inr (Some ?row1))"
    using get_file_info_cached[of ?c1 i ?row1 ?descr] by simp
  then show "get_file_info (fst (get_file_info c i)) i = (fst (get_file_info c i), Inr (Some ?row1))"
    using first by simp
  show "geo_calls (fst (get_file_info (fst (get_file_info c i)) i)) = Suc (geo_calls c)"
    using first second by simp
  have other: "select_file_id (db ?c1) j = Some (rowj\<lparr>v_location := Some ?descr\<rparr>)"
    if "select_file_id (db c) j = Some rowj" "v_latitude rowj = Some lat" "v_longitude rowj = Some lon"
    for j rowj
    using select_after_geocode[OF that, of ?descr] by simp
  {
    fix j rowj
    assume b: "select_file_id (db c) j = Some rowj
          \<and> v_latitude rowj = Some lat \<and> v_longitude rowj = Some lon"
    have "select_file_id (db ?c1) j = Some (rowj\<lparr>v_location := Some ?descr\<rparr>)"
      using b other[of j rowj] by simp
    then have "get_file_info ?c1 j = (?c1, Inr (Some (rowj\<lparr>v_location := Some ?descr\<rparr>)))"
      using get_file_info_cached[of ?c1 j "rowj\<lparr>v_location := Some ?descr\<rparr>" ?descr] by simp
    then show "get_file_info (fst (get_file_info c i)) j =
          (fst (get_file_info c i), Inr (Some (rowj\<lparr>v_location := Some ?descr\<rparr>)))"
      using first by simp
  }
  {
    fix js
    assume b: "\<forall>j\<in>set js. \<exists>rowj. select_file_id (db c) j = Some rowj
                \<and> v_latitude rowj = Some lat \<and> v_longitude rowj = Some lon"
    have "\<forall>j\<in>set js. \<exists>rowj. select_file_id (db ?c1) j = Some rowj \<and> v_location rowj \<noteq> None"
    proof
      fix j assume "j \<in> set js"
      with b obtain rowj where r: "select_file_id (db c) j = Some rowj"
        "v_latitude rowj = Some lat" "v_longitude rowj = Some lon" by auto
      from other[OF r] show "\<exists>rowj. select_file_id (db ?c1) j = Some rowj \<and> v_location rowj \<noteq> None"
        by simp
    qed
    then have "fold (\<lambda>j c'. fst (get_file_info c' j)) js ?c1 = ?c1"
      by (rule accesses_after_resolution)
    then show "geo_calls (fold (\<lambda>j c'. fst (get_file_info c' j)) js (fst (get_file_info c i)))
          = Suc (geo_calls c)"
      using first by simp
  }
next
  assume a: "select_file_id (db c) i = Some row \<and> v_latitude row = Some lat \<and> v_longitude row = Some lon
      \<and> v_location row = None \<and> geo_reverse c (geo_calls c) lat lon = []"
  then show first: "get_file_info c i = (c\<lparr>geo_calls := Suc (geo_calls c)\<rparr>, Inr (Some row))"
    using get_file_info_no_answer[of c i row lat lon] by simp
  fix j rowj
  assume b: "select_file_id (db c) j = Some rowj
          \<and> v_latitude rowj = Some lat \<and> v_longitude rowj = Some lon"
  have "v_location rowj = None"
    using same_coordinates_same_location[of "db c" i row j rowj lat lon] a b by simp
  then have "geo_calls (fst (get_file_info (c\<lparr>geo_calls := Suc (geo_calls c)\<rparr>) j))
             = Suc (geo_calls (c\<lparr>geo_calls := Suc (geo_calls c)\<rparr>))"
    using get_file_info_invokes[of "c\<lparr>geo_calls := Suc (geo_calls c)\<rparr>" j rowj lat lon] b by simp
  then show "geo_calls (fst (get_file_info (fst (get_file_info c i)) j)) = Suc (Suc (geo_calls c))"
    using first by simp
next
  assume b: "select_file_id (db c) i = Some row \<and> v_latitude row = Some lat \<and> v_longitude row = Some lon
      \<and> v_location row = None \<and> (\<forall>n. geo_reverse c n lat lon = [])"
  then have r: "db (((\<lambda>c. fst (get_file_info c i)) ^^ k) c) = db c
       \<and> geo_reverse (((\<lambda>c. fst (get_file_info c i)) ^^ k) c) = geo_reverse c
       \<and> geo_calls (((\<lambda>c. fst (get_file_info c i)) ^^ k) c) = geo_calls c + k"
    using repeated_no_answer[of c i row lat lon k] by simp
  from r show "db (((\<lambda>c. fst (get_file_info c i)) ^^ k) c) = db c" by simp
  from r show "geo_calls (((\<lambda>c. fst (get_file_info c i)) ^^ k) c) = geo_calls c + k" by simp
  fix js
  assume d: "\<forall>j\<in>set js. \<exists>rowj. select_file_id (db c) j = Some rowj
                \<and> v_latitude rowj = Some lat \<and> v_longitude rowj = Some lon"
  have p1: "\<forall>j\<in>set js. \<exists>rowj. select_file_id (db c) j = Some rowj \<and> v_latitude rowj = Some lat
             \<and> v_longitude rowj = Some lon \<and> v_location rowj = None"
  proof
    fix j assume "j \<in> set js"
    with d obtain rowj where rj: "select_file_id (db c) j = Some rowj"
      "v_latitude rowj = Some lat" "v_longitude rowj = Some lon" by auto
    have "v_location rowj = None"
      using same_coordinates_same_location[of "db c" i row j rowj lat lon] b rj by simp
    with rj show "\<exists>rowj. select_file_id (db c) j = Some rowj \<and> v_latitude rowj = Some lat
             \<and> v_longitude rowj = Some lon \<and> v_location rowj = None" by simp
  qed
  have p2: "\<forall>n. geo_reverse c n lat lon = []" using b by simp
  note f = accesses_without_answer[OF p1 p2]
  from f show "db (fold (\<lambda>j c'. fst (get_file_info c' j)) js c) = db c" by simp
  from f show "geo_calls (fold (\<lambda>j c'. fst (get_file_info c' j)) js c) = geo_calls c + length js"
    by simp
qed

lemma geo_cache_fields:
  "db (geo_cache g) = geo_store" "geo_calls (geo_cache g) = 0" "geo_reverse (geo_cache g) = g"
  by (simp_all add: geo_cache_def)

lemma geo_store_select:
  "select_file_id geo_store 1 =
     Some \<lparr>fname = ''/p/a.jpg'', last_modified = 5, v_meta = Some gps_meta, v_location = None\<rparr>"
  "select_file_id geo_store 2 =
     Some \<lparr>fname = ''/p/b.jpg'', last_modified = 5, v_meta = Some (gps_meta\<lparr>m_file_id := 2\<rparr>),
            v_location = None\<rparr>"
  by (simp_all add: select_file_id_def all_data_def geo_store_def demo_file_def gps_meta_def
        demo_meta_def left_join_def mk_view_row_def location_on_def v_file_id_def)

theorem geocode_cached_on_success_witness:
  "snd (get_file_info (geo_cache (\<lambda>n la lo. ''London'')) 1) =
     Inr (Some \<lparr>fname = ''/p/a.jpg'', last_modified = 5, v_meta = Some gps_meta,
                v_location = Some ''London''\<rparr>)
   \<and> geo_calls (fst (get_file_info (fst (get_file_info (geo_cache (\<lambda>n la lo. ''London'')) 1)) 1)) = 1
   \<and> snd (get_file_info (fst (get_file_info (geo_cache (\<lambda>n la lo. ''London'')) 1)) 2) =
       Inr (Some \<lparr>fname = ''/p/b.jpg'', last_modified = 5, v_meta = Some (gps_meta\<lparr>m_file_id := 2\<rparr>),
                  v_location = Some ''London''\<rparr>)
   \<and> geo_calls (fold (\<lambda>j c'. fst (get_file_info c' j)) [2, 1, 2]
                  (fst (get_file_info (geo_cache (\<lambda>n la lo. ''London'')) 1))) = 1
   \<and> get_file_info (geo_cache (\<lambda>n la lo. [])) 1 =
       ((geo_cache (\<lambda>n la lo. []))\<lparr>geo_calls := 1\<rparr>,
        Inr (Some \<lparr>fname = ''/p/a.jpg'', last_modified = 5, v_meta = Some gps_meta, v_location = None\<rparr>))
   \<and> geo_calls (fst (get_file_info (fst (get_file_info (geo_cache (\<lambda>n la lo. [])) 1)) 2)) = 2
   \<and> geo_calls (((\<lambda>c. fst (get_file_info c 1)) ^^ 3) (geo_cache (\<lambda>n la lo. []))) = 3
   \<and> geo_calls (fold (\<lambda>j c'. fst (get_file_info c' j)) [1, 2, 2, 1] (geo_cache (\<lambda>n la lo. []))) = 4"
proof -
  let ?row = "\<lparr>fname = ''/p/a.jpg'', last_modified = 5, v_meta = Some gps_meta, v_location = None\<rparr>"
  let ?rowb = "\<lparr>fname = ''/p/b.jpg'', last_modified = 5, v_meta = Some (gps_meta\<lparr>m_file_id := 2\<rparr>),
                v_location = None\<rparr>"
  let ?la = "515012 / 10000 :: rat"
  let ?lo = "- (1278 / 10000) :: rat"
  let ?L = "geo_cache (\<lambda>n la lo. ''London'')"
  let ?E = "geo_cache (\<lambda>n la lo. [])"
  have H: "select_file_id (db (geo_cache g)) 1 = Some ?row
           \<and> v_latitude ?row = Some ?la \<and> v_longitude ?row = Some ?lo \<and> v_location ?row = None" for g
    by (simp add: geo_cache_fields geo_store_select v_latitude_def v_longitude_def gps_meta_def)
  have Hb: "select_file_id (db (geo_cache g)) 2 = Some ?rowb
           \<and> v_latitude ?rowb = Some ?la \<and> v_longitude ?rowb = Some ?lo" for g
    by (simp add: geo_cache_fields geo_store_select v_latitude_def v_longitude_def gps_meta_def)
  have Hjs: "\<forall>j\<in>set js. \<exists>rowj. select_file_id (db (geo_cache g)) j = Some rowj
                \<and> v_latitude rowj = Some ?la \<and> v_longitude rowj = Some ?lo"
    if "set js \<subseteq> {1, 2}" for g js
  proof
    fix j assume "j \<in> set js"
    with that have "j = 1 \<or> j = 2" by auto
    then show "\<exists>rowj. select_file_id (db (geo_cache g)) j = Some rowj
                \<and> v_latitude rowj = Some ?la \<and> v_longitude rowj = Some ?lo"
      using H[of g] Hb[of g] by auto
  qed
  note t1 = geocode_cached_on_success[of ?L 1 ?row ?la ?lo]
  note t2 = geocode_cached_on_success[of ?E 1 ?row ?la ?lo 3]
  have h1: "select_file_id (db ?L) 1 = Some ?row
           \<and> v_latitude ?row = Some ?la \<and> v_longitude ?row = Some ?lo \<and> v_location ?row = None
           \<and> geo_reverse ?L (geo_calls ?L) ?la ?lo \<noteq> []"
    using H[of "\<lambda>n la lo. ''London''"] by (simp add: geo_cache_fields)
  have h2: "select_file_id (db ?E) 1 = Some ?row
           \<and> v_latitude ?row = Some ?la \<and> v_longitude ?row = Some ?lo \<and> v_location ?row = None
           \<and> geo_reverse ?E (geo_calls ?E) ?la ?lo = []"
    using H[of "\<lambda>n la lo. []"] by (simp add: geo_cache_fields)
  have h3: "select_file_id (db ?E) 1 = Some ?row
           \<and> v_latitude ?row = Some ?la \<and> v_longitude ?row = Some ?lo \<and> v_location ?row = None
           \<and> (\<forall>n. geo_reverse ?E n ?la ?lo = [])"
    using H[of "\<lambda>n la lo. []"] by (simp add: geo_cache_fields)
  note r1 = t1[THEN conjunct1, THEN mp, OF h1]
  note r2 = t2[THEN conjunct2, THEN conjunct1, THEN mp, OF h2]
  note r3 = t2[THEN conjunct2, THEN conjunct2, THEN mp, OF h3]
  have w1: "snd (get_file_info ?L 1) =
     Inr (Some \<lparr>fname = ''/p/a.jpg'', last_modified = 5, v_meta = Some gps_meta,
                v_location = Some ''London''\<rparr>)"
    using r1[THEN conjunct1] by (simp add: geo_cache_fields)
  have w2: "geo_calls (fst (get_file_info (fst (get_file_info ?L 1)) 1)) = 1"
    using r1[THEN conjunct2, THEN conjunct2, THEN conjunct1] by (simp add: geo_cache_fields)
  have w2b: "snd (get_file_info (fst (get_file_info ?L 1)) 2) =
       Inr (Some \<lparr>fname = ''/p/b.jpg'', last_modified = 5, v_meta = Some (gps_meta\<lparr>m_file_id := 2\<rparr>),
                  v_location = Some ''London''\<rparr>)"
    using r1[THEN conjunct2, THEN conjunct2, THEN conjunct2, THEN conjunct1, THEN spec, THEN spec,
             THEN mp, OF Hb[of "\<lambda>n la lo. ''London''"]]
    by (simp add: geo_cache_fields)
  have w2c: "geo_calls (fold (\<lambda>j c'. fst (get_file_info c' j)) [2, 1, 2] (fst (get_file_info ?L 1))) = 1"
    using r1[THEN conjunct2, THEN conjunct2, THEN conjunct2, THEN conjunct2, THEN spec, THEN mp,
             OF Hjs[of "[2, 1, 2]" "\<lambda>n la lo. ''London''"]]
    by (simp add: geo_cache_fields)
  have w3: "get_file_info ?E 1 = (?E\<lparr>geo_calls := 1\<rparr>, Inr (Some ?row))"
    using r2[THEN conjunct1] by (simp add: geo_cache_fields)
  have w3b: "geo_calls (fst (get_file_info (fst (get_file_info ?E 1)) 2)) = 2"
    using r2[THEN conjunct2, THEN spec, THEN spec, THEN mp, OF Hb[of "\<lambda>n la lo. []"]]
    by (simp add: geo_cache_fields)
  have w4: "geo_calls (((\<lambda>c. fst (get_file_info c 1)) ^^ 3) ?E) = 3"
    using r3[THEN conjunct2, THEN conjunct1] by (simp add: geo_cache_fields)
  have w5: "geo_calls (fold (\<lambda>j c'. fst (get_file_info c' j)) [1, 2, 2, 1] ?E) = 4"
    using r3[THEN conjunct2, THEN conjunct2, THEN spec, THEN mp,
             OF Hjs[of "[1, 2, 2, 1]" "\<lambda>n la lo. []"], THEN conjunct2]
    by (simp add: geo_cache_fields)
  from w1 w2 w2b w2c w3 w3b w4 w5 show ?thesis by (intro conjI)
qed

section \<open>GPS rounding\<close>







section \<open>The early stop of the first scan\<close>

lemma warm_first_cycle:
  "update_cache (two_folder_env 100) warm_cache = (warm_cache, Inr ([], []))"
  by (simp add: update_cache_def update_modified_folders_def two_folder_env_def warm_cache_def
        warm_store_def folder_out_of_date_def select_folder_def py_int_def
        update_modified_files_def file_entries_def update_meta_data_def
        purge_missing_files_and_folders_def all_data_def Let_def)

text \<open>
  Claim C8 on the code. A process that starts on a store that is already up to date finds no
  out-of-date folder in its first cycle, and \<open>__first_run\<close> stays set. When both folders
  change afterwards, the second cycle stops at the first of them: it reports \<open>/p\<close> alone
  although \<open>/p/a\<close> is out of date as well, so a cycle after the very first one does not scan
  the whole tree.
\<close>

theorem early_stop_after_idle_first_cycle:
  "first_run warm_cache
   \<and> update_cache (two_folder_env 100) warm_cache = (warm_cache, Inr ([], []))
   \<and> folder_out_of_date (two_folder_env 200) (db warm_cache) ''/p''
   \<and> folder_out_of_date (two_folder_env 200) (db warm_cache) ''/p/a''
   \<and> snd (update_modified_folders (two_folder_env 200)
            (fst (update_cache (two_folder_env 100) warm_cache))) = [''/p'']"
  by (simp add: warm_first_cycle)
     (simp add: update_modified_folders_def two_folder_env_def warm_cache_def
        warm_store_def folder_out_of_date_def select_folder_def py_int_def)

section \<open>Lookup of an absent id\<close>

text \<open>
  Claim C9. When no row of the view has the requested file id, \<open>get_file_info\<close> finds no row
  and the access to the absent row raises: the call ends in TypeError and returns no record.
\<close>

theorem get_file_info_absent_raises:
  assumes "\<forall>r\<in>set (all_data (db c)). v_file_id r \<noteq> Some i"
  shows "select_file_id (db c) i = None \<and> get_file_info c i = (c, Inl TypeError)"
proof -
  have "select_file_id (db c) i = None"
    using assms by (auto simp: select_file_id_def find_None_iff)
  then show ?thesis by (simp add: get_file_info_def)
qed

theorem get_file_info_absent_raises_witness:
  "get_file_info pairing_cache 99 = (pairing_cache, Inl TypeError)"
proof -
  have "\<forall>r\<in>set (all_data (db pairing_cache)). v_file_id r \<noteq> Some 99"
    by (simp add: pairing_cache_def all_data_pairing_store v_file_id_def demo_meta_def)
  from get_file_info_absent_raises[OF this] show ?thesis by simp
qed

section \<open>Precision of the stored modification times\<close>








end
